theory Spec2Isabelle
  imports Complex_Main
begin

section \<open>Quote arithmetic\<close>

text \<open>
  JavaScript numbers that carry money, quantities and percentages are modelled as exact
  rationals: the rounding of IEEE doubles and of the \<^verbatim>\<open>numeric(10,2)\<close> columns is outside
  the model. Integers that only count or identify (ids, page numbers, timestamps, years)
  are natural numbers.
\<close>

record QuoteLineInput =
  productId :: "nat option"
  description :: string
  quantity :: rat
  unitPrice :: rat
  discount :: rat
  lineNotes :: "string option"

record QuoteTotals =
  subtotal :: rat
  taxAmount :: rat
  total :: rat

text \<open>
  \<^verbatim>\<open>calculateQuoteTotals(lines, taxRate)\<close> of routes/quotes.ts: a left fold
  (\<^verbatim>\<open>lines.reduce\<close>, initial value 0) over the line totals, then the tax and the total.
\<close>

definition lineTotalOf :: "QuoteLineInput \<Rightarrow> rat" where
  "lineTotalOf line = (quantity line * unitPrice line) - discount line"

definition calculateQuoteTotals :: "QuoteLineInput list \<Rightarrow> rat \<Rightarrow> QuoteTotals" where
  "calculateQuoteTotals lines taxRate =
     (let subtotal = foldl (\<lambda>sum line. sum + lineTotalOf line) 0 lines;
          taxAmount = (subtotal * taxRate) / 100;
          total = subtotal + taxAmount
      in \<lparr>subtotal = subtotal, taxAmount = taxAmount, total = total\<rparr>)"

section \<open>Errors\<close>

text \<open>
  utils/errors.ts. At run time a JavaScript property holds whatever value the caller
  passed, so the two constructor parameters of \<^verbatim>\<open>AppError\<close> are values that are either a
  number or a string. \<^verbatim>\<open>constructor(public statusCode, public message, ...)\<close> stores its
  first argument as \<^verbatim>\<open>statusCode\<close> and its second as \<^verbatim>\<open>message\<close>; the subclasses fix
  the status code and overwrite \<^verbatim>\<open>name\<close>.
\<close>

datatype jsval = JNum int | JStr string

record AppError =
  name :: string
  statusCode :: jsval
  message :: jsval

definition newAppError :: "jsval \<Rightarrow> jsval \<Rightarrow> AppError" where
  "newAppError statusCode' message' =
     \<lparr>name = ''AppError'', statusCode = statusCode', message = message'\<rparr>"

definition ValidationError :: "string \<Rightarrow> AppError" where
  "ValidationError msg = (newAppError (JNum 400) (JStr msg))\<lparr>name := ''ValidationError''\<rparr>"

definition UnauthorizedError :: "string \<Rightarrow> AppError" where
  "UnauthorizedError msg = (newAppError (JNum 401) (JStr msg))\<lparr>name := ''UnauthorizedError''\<rparr>"

definition ForbiddenError :: "string \<Rightarrow> AppError" where
  "ForbiddenError msg = (newAppError (JNum 403) (JStr msg))\<lparr>name := ''ForbiddenError''\<rparr>"

definition NotFoundError :: "string \<Rightarrow> AppError" where
  "NotFoundError msg = (newAppError (JNum 404) (JStr msg))\<lparr>name := ''NotFoundError''\<rparr>"

definition ConflictError :: "string \<Rightarrow> AppError" where
  "ConflictError msg = (newAppError (JNum 409) (JStr msg))\<lparr>name := ''ConflictError''\<rparr>"

text \<open>
  What a handler throws: an \<open>AppError\<close>, or the database driver's error for a violated
  unique constraint (the constraint's name), which is not an \<open>AppError\<close>.
\<close>

datatype exn = App AppError | UniqueViolation string

text \<open>
  \<^verbatim>\<open>errorHandler\<close> of middleware/errorHandler.ts: the status handed to \<^verbatim>\<open>c.json\<close>, and the
  \<^verbatim>\<open>error\<close> field that \<^verbatim>\<open>formatErrorResponse\<close> gives an \<open>AppError\<close>.
\<close>

fun errorHandler :: "exn \<Rightarrow> jsval" where
  "errorHandler (App err) = statusCode err"
| "errorHandler (UniqueViolation c) = JNum 500"

section \<open>Strings: number formatting, the quote-number pattern and ILIKE\<close>

definition isDigit :: "char \<Rightarrow> bool" where
  "isDigit c = (48 \<le> (of_char c :: nat) \<and> (of_char c :: nat) \<le> 57)"

definition digitChar :: "nat \<Rightarrow> char" where
  "digitChar d = char_of (48 + d)"

definition digitVal :: "char \<Rightarrow> nat" where
  "digitVal c = of_char c - 48"

text \<open>\<^verbatim>\<open>n.toString()\<close> for a non-negative integer: its decimal digits.\<close>

fun toString :: "nat \<Rightarrow> string" where
  "toString n = (if n < 10 then [digitChar n] else toString (n div 10) @ [digitChar (n mod 10)])"

declare toString.simps [simp del]

text \<open>\<^verbatim>\<open>s.padStart(n, c)\<close> with a one-character pad string.\<close>

definition padStart :: "nat \<Rightarrow> char \<Rightarrow> string \<Rightarrow> string" where
  "padStart n c s = replicate (n - length s) c @ s"

text \<open>
  \<^verbatim>\<open>parseInt\<close> applied to a capture group of \<^verbatim>\<open>\d+\<close>, a non-empty string of decimal
  digits: its value (taken exactly; a double is exact below \<open>2^53\<close>).
\<close>

definition parseInt :: "string \<Rightarrow> nat" where
  "parseInt s = foldl (\<lambda>acc c. 10 * acc + digitVal c) 0 s"

text \<open>
  \<^verbatim>\<open>quoteNumber.match(/QUO-\d+-(\d+)/)\<close>: the first capture group of the leftmost match,
  or \<open>None\<close> when the pattern matches nowhere. Since \<^verbatim>\<open>-\<close> is not a digit, the greedy
  \<^verbatim>\<open>\d+\<close> can only match a maximal run of digits.
\<close>

definition matchHere :: "string \<Rightarrow> string option" where
  "matchHere s =
     (if take 4 s = ''QUO-'' then
        (let r = drop 4 s; ds = takeWhile isDigit r in
         if ds = [] then None
         else (case dropWhile isDigit r of
                 [] \<Rightarrow> None
               | c # r' \<Rightarrow>
                   if c = CHR ''-'' then
                     (let es = takeWhile isDigit r' in if es = [] then None else Some es)
                   else None))
      else None)"

fun matchQuoteNumber :: "string \<Rightarrow> string option" where
  "matchQuoteNumber [] = None"
| "matchQuoteNumber (c # s) =
     (case matchHere (c # s) of Some g \<Rightarrow> Some g | None \<Rightarrow> matchQuoteNumber s)"

text \<open>
  PostgreSQL's \<^verbatim>\<open>ILIKE\<close>: \<^verbatim>\<open>LIKE\<close> on the lower-cased pattern and string (ASCII letters).
  In a pattern \<^verbatim>\<open>%\<close> matches any sequence, \<^verbatim>\<open>_\<close> any one character and a backslash
  makes the next character literal.
\<close>

definition toLower :: "char \<Rightarrow> char" where
  "toLower c = (if 65 \<le> (of_char c :: nat) \<and> (of_char c :: nat) \<le> 90
                then char_of ((of_char c :: nat) + 32) else c)"

fun like :: "string \<Rightarrow> string \<Rightarrow> bool" where
  "like [] s = (s = [])"
| "like (p # ps) s =
     (if p = CHR ''%'' then
        (like ps s \<or> (case s of [] \<Rightarrow> False | c # t \<Rightarrow> like (p # ps) t))
      else if p = CHR ''_'' then
        (case s of [] \<Rightarrow> False | c # t \<Rightarrow> like ps t)
      else if p = CHR 0x5C then
        (case ps of
           [] \<Rightarrow> False
         | e # ps' \<Rightarrow> (case s of [] \<Rightarrow> False | c # t \<Rightarrow> c = e \<and> like ps' t))
      else (case s of [] \<Rightarrow> False | c # t \<Rightarrow> c = p \<and> like ps t))"

definition ilike :: "string \<Rightarrow> string \<Rightarrow> bool" where
  "ilike s pattern = like (map toLower pattern) (map toLower s)"

text \<open>A character that stands for itself in a \<^verbatim>\<open>LIKE\<close> pattern.\<close>

definition plainChar :: "char \<Rightarrow> bool" where
  "plainChar c = (c \<noteq> CHR ''%'' \<and> c \<noteq> CHR ''_'' \<and> c \<noteq> CHR 0x5C)"

section \<open>The database\<close>

text \<open>
  db/schema.ts. A table is the list of its rows in insertion order, and every
  \<^verbatim>\<open>serial\<close> primary key has its sequence, the next id to hand out. Of the constraints
  the schema declares, the model keeps the primary keys and the \<^verbatim>\<open>.unique()\<close> columns
  (\<^verbatim>\<open>users.email\<close>, \<^verbatim>\<open>products.sku\<close>, \<^verbatim>\<open>quotes.quote_number\<close>): an insert that repeats a
  unique value throws. Foreign keys and column precision are not modelled, and columns
  that no modelled handler reads or writes are left out. Timestamps are natural numbers.
\<close>

datatype QuoteStatus = draft | sent | viewed | accepted | rejected | expired

record Account =
  a_id :: nat
  a_name :: string
  a_plan :: string
  a_isActive :: bool

record User =
  u_id :: nat
  u_accountId :: nat
  u_email :: string
  u_name :: string
  u_passwordHash :: string
  u_role :: string
  u_phone :: "string option"
  u_isActive :: bool
  u_updatedAt :: nat

record Customer =
  c_id :: nat
  c_accountId :: nat
  c_firstName :: string
  c_lastName :: string
  c_postcode :: string

record Product =
  p_id :: nat
  p_accountId :: nat
  p_sku :: string
  p_name :: string
  p_sellPrice :: rat

record BoilerSpecification =
  b_id :: nat
  b_manufacturer :: string
  b_model :: string
  b_isActive :: bool

record Quote =
  q_id :: nat
  q_accountId :: nat
  q_customerId :: nat
  q_leadId :: "nat option"
  q_quoteNumber :: string
  q_title :: "string option"
  q_status :: QuoteStatus
  q_validUntil :: "nat option"
  q_subtotal :: rat
  q_taxRate :: rat
  q_taxAmount :: rat
  q_total :: rat
  q_depositAmount :: "rat option"
  q_notes :: "string option"
  q_termsAndConditions :: "string option"
  q_createdBy :: nat
  q_createdAt :: nat
  q_updatedAt :: nat

record QuoteLine =
  l_id :: nat
  l_quoteId :: nat
  l_productId :: "nat option"
  l_sortOrder :: nat
  l_description :: string
  l_quantity :: rat
  l_unitPrice :: rat
  l_discount :: rat
  l_lineTotal :: rat
  l_notes :: "string option"

record DB =
  accounts :: "Account list"
  users :: "User list"
  customers :: "Customer list"
  products :: "Product list"
  boilerSpecifications :: "BoilerSpecification list"
  quotes :: "Quote list"
  quoteLines :: "QuoteLine list"
  accounts_id_seq :: nat
  users_id_seq :: nat
  products_id_seq :: nat
  boiler_specifications_id_seq :: nat
  quotes_id_seq :: nat
  quote_lines_id_seq :: nat

text \<open>
  \<^verbatim>\<open>findFirst({where})\<close> returns the first row that satisfies the condition;
  \<^verbatim>\<open>orderBy: [desc(col)]\<close> and \<^verbatim>\<open>asc(col)\<close> sort the rows (rows with equal keys stay in
  some fixed order, here the one of a stable sort).
\<close>

definition findFirst :: "('a \<Rightarrow> bool) \<Rightarrow> 'a list \<Rightarrow> 'a option" where
  "findFirst cond rows = List.find cond rows"

definition orderByAsc :: "('a \<Rightarrow> nat) \<Rightarrow> 'a list \<Rightarrow> 'a list" where
  "orderByAsc col rows = sort_key col rows"

definition orderByDesc :: "('a \<Rightarrow> nat) \<Rightarrow> 'a list \<Rightarrow> 'a list" where
  "orderByDesc col rows = rev (sort_key col rows)"

definition firstRow :: "'a list \<Rightarrow> 'a option" where
  "firstRow rows = (case rows of [] \<Rightarrow> None | r # _ \<Rightarrow> Some r)"

text \<open>Inserts. The row gets the next value of the table's sequence as its id.\<close>

definition insertQuote :: "DB \<Rightarrow> Quote \<Rightarrow> exn + (DB \<times> Quote)" where
  "insertQuote db values =
     (if \<exists>q \<in> set (quotes db). q_quoteNumber q = q_quoteNumber values
      then Inl (UniqueViolation ''quotes_quote_number_unique'')
      else (let row = values\<lparr>q_id := quotes_id_seq db\<rparr>
            in Inr (db\<lparr>quotes := quotes db @ [row], quotes_id_seq := quotes_id_seq db + 1\<rparr>, row)))"

definition insertQuoteLine :: "DB \<Rightarrow> QuoteLine \<Rightarrow> DB \<times> QuoteLine" where
  "insertQuoteLine db values =
     (let row = values\<lparr>l_id := quote_lines_id_seq db\<rparr>
      in (db\<lparr>quoteLines := quoteLines db @ [row],
              quote_lines_id_seq := quote_lines_id_seq db + 1\<rparr>, row))"

fun insertQuoteLines :: "DB \<Rightarrow> QuoteLine list \<Rightarrow> DB \<times> QuoteLine list" where
  "insertQuoteLines db [] = (db, [])"
| "insertQuoteLines db (v # vs) =
     (let (db1, row) = insertQuoteLine db v;
          (db2, rows) = insertQuoteLines db1 vs
      in (db2, row # rows))"

definition insertProduct :: "DB \<Rightarrow> Product \<Rightarrow> exn + (DB \<times> Product)" where
  "insertProduct db values =
     (if \<exists>p \<in> set (products db). p_sku p = p_sku values
      then Inl (UniqueViolation ''products_sku_unique'')
      else (let row = values\<lparr>p_id := products_id_seq db\<rparr>
            in Inr (db\<lparr>products := products db @ [row],
                       products_id_seq := products_id_seq db + 1\<rparr>, row)))"

definition insertAccount :: "DB \<Rightarrow> Account \<Rightarrow> DB \<times> Account" where
  "insertAccount db values =
     (let row = values\<lparr>a_id := accounts_id_seq db\<rparr>
      in (db\<lparr>accounts := accounts db @ [row], accounts_id_seq := accounts_id_seq db + 1\<rparr>, row))"

definition insertUser :: "DB \<Rightarrow> User \<Rightarrow> exn + (DB \<times> User)" where
  "insertUser db values =
     (if \<exists>u \<in> set (users db). u_email u = u_email values
      then Inl (UniqueViolation ''users_email_unique'')
      else (let row = values\<lparr>u_id := users_id_seq db\<rparr>
            in Inr (db\<lparr>users := users db @ [row], users_id_seq := users_id_seq db + 1\<rparr>, row)))"

definition insertBoilerSpecification ::
  "DB \<Rightarrow> BoilerSpecification \<Rightarrow> DB \<times> BoilerSpecification" where
  "insertBoilerSpecification db values =
     (let row = values\<lparr>b_id := boiler_specifications_id_seq db\<rparr>
      in (db\<lparr>boilerSpecifications := boilerSpecifications db @ [row],
              boiler_specifications_id_seq := boiler_specifications_id_seq db + 1\<rparr>, row))"

section \<open>Authentication context\<close>

text \<open>
  lib/jwt.ts and middleware/auth.ts. Every modelled route runs behind the authentication
  middleware, which stores the verified token's payload as the context's \<^verbatim>\<open>user\<close>.
  routes/users.ts also reads a property \<^verbatim>\<open>id\<close> of that object, which \<^verbatim>\<open>JwtPayload\<close> does
  not declare: \<open>jwt_id\<close> is \<open>None\<close> when the property is absent.
\<close>

record JwtPayload =
  jwt_userId :: nat
  jwt_accountId :: nat
  jwt_email :: string
  jwt_role :: string
  jwt_id :: "nat option"

definition requireAccountAccess :: "JwtPayload \<Rightarrow> nat" where
  "requireAccountAccess user = jwt_accountId user"

text \<open>
  A sequence hands out each id once, and a quote line refers to a quote that was inserted
  before it: in every state the routes reach, the stored quote ids lie below the sequence.
\<close>

definition sequencesAhead :: "DB \<Rightarrow> bool" where
  "sequencesAhead db =
     ((\<forall>q \<in> set (quotes db). q_id q < quotes_id_seq db)
      \<and> (\<forall>l \<in> set (quoteLines db). l_quoteId l < quotes_id_seq db))"


section \<open>Validation schemas of the quote routes\<close>



record CreateQuoteInput =
  cq_customerId :: nat
  cq_leadId :: "nat option"
  cq_title :: "string option"
  cq_validUntil :: "nat option"
  cq_taxRate :: rat
  cq_depositAmount :: "rat option"
  cq_notes :: "string option"
  cq_termsAndConditions :: "string option"
  cq_lines :: "QuoteLineInput list"

definition positiveOpt :: "nat option \<Rightarrow> bool" where
  "positiveOpt x = (case x of None \<Rightarrow> True | Some n \<Rightarrow> 0 < n)"

definition isInt :: "rat \<Rightarrow> bool" where
  "isInt x = (of_int \<lfloor>x\<rfloor> = x)"




text \<open>
  \<^verbatim>\<open>updateQuoteSchema = createQuoteSchema.partial().extend({status})\<close>: every field may be
  absent, and an absent field stays absent. The model takes the validated body.
\<close>

record UpdateQuoteInput =
  uq_title :: "string option"
  uq_validUntil :: "nat option"
  uq_taxRate :: "rat option"
  uq_depositAmount :: "rat option"
  uq_notes :: "string option"
  uq_termsAndConditions :: "string option"
  uq_status :: "QuoteStatus option"
  uq_lines :: "QuoteLineInput list option"

definition updateQuoteSchema_ok :: "UpdateQuoteInput \<Rightarrow> bool" where
  "updateQuoteSchema_ok d =
     ((case uq_taxRate d of None \<Rightarrow> True | Some t \<Rightarrow> 0 \<le> t \<and> t \<le> 100)
      \<and> (case uq_depositAmount d of None \<Rightarrow> True | Some x \<Rightarrow> 0 \<le> x)
      \<and> (case uq_lines d of
            None \<Rightarrow> True
          | Some ls \<Rightarrow> 1 \<le> length ls
              \<and> list_all (\<lambda>l. positiveOpt (productId l) \<and> 1 \<le> length (description l)
                   \<and> isInt (quantity l) \<and> 1 \<le> quantity l \<and> 0 \<le> unitPrice l
                   \<and> 0 \<le> discount l) ls))"

text \<open>\<^verbatim>\<open>paginationSchema\<close>: the coerced \<^verbatim>\<open>page\<close> and \<^verbatim>\<open>pageSize\<close>, with their defaults.\<close>

definition paginationSchema :: "int option \<Rightarrow> int option \<Rightarrow> exn + (nat \<times> nat)" where
  "paginationSchema page pageSize =
     (let page' = (case page of None \<Rightarrow> 1 | Some p \<Rightarrow> p);
          pageSize' = (case pageSize of None \<Rightarrow> 20 | Some s \<Rightarrow> s)
      in if 1 \<le> page' \<and> 1 \<le> pageSize' \<and> pageSize' \<le> 100
         then Inr (nat page', nat pageSize')
         else Inl (App (ValidationError ''Validation failed'')))"

record QuoteQueryInput =
  qq_page :: nat
  qq_pageSize :: nat
  qq_search :: "string option"
  qq_status :: "QuoteStatus option"
  qq_customerId :: "nat option"

section \<open>routes/quotes.ts\<close>

text \<open>
  A JavaScript template literal prints \<^verbatim>\<open>null\<close> for a missing title. \<open>a || b\<close> on numbers
  yields \<open>b\<close> exactly when \<open>a\<close> is \<open>0\<close> (or absent).
\<close>

definition orElse :: "rat \<Rightarrow> rat \<Rightarrow> rat" where
  "orElse a b = (if a = 0 then b else a)"

definition orElseOpt :: "rat option \<Rightarrow> rat \<Rightarrow> rat" where
  "orElseOpt a b = (case a of None \<Rightarrow> b | Some x \<Rightarrow> orElse x b)"

text \<open>\<^verbatim>\<open>generateQuoteNumber(accountId)\<close>; \<open>year\<close> is \<^verbatim>\<open>new Date().getFullYear()\<close>.\<close>

definition quotesOfYear :: "DB \<Rightarrow> nat \<Rightarrow> nat \<Rightarrow> Quote list" where
  "quotesOfYear db accountId year =
     filter (\<lambda>q. q_accountId q = accountId
                  \<and> ilike (q_quoteNumber q) (''QUO-'' @ toString year @ ''-%''))
       (quotes db)"

definition latestQuoteOfYear :: "DB \<Rightarrow> nat \<Rightarrow> nat \<Rightarrow> Quote option" where
  "latestQuoteOfYear db accountId year =
     firstRow (orderByDesc q_createdAt (quotesOfYear db accountId year))"

definition generateQuoteNumber :: "DB \<Rightarrow> nat \<Rightarrow> nat \<Rightarrow> string" where
  "generateQuoteNumber db accountId year =
     (let latestQuote = latestQuoteOfYear db accountId year;
          nextNumber =
            (case latestQuote of
               None \<Rightarrow> 1
             | Some q \<Rightarrow>
                 if q_quoteNumber q \<noteq> [] then
                   (case matchQuoteNumber (q_quoteNumber q) of
                      None \<Rightarrow> 1
                    | Some g \<Rightarrow> parseInt g + 1)
                 else 1)
      in ''QUO-'' @ toString year @ ''-'' @ padStart 3 (CHR ''0'') (toString nextNumber))"

text \<open>The rows the handlers write for the lines of a request, \<^verbatim>\<open>sortOrder\<close> the index.\<close>

definition lineValues :: "nat \<Rightarrow> nat \<Rightarrow> QuoteLineInput \<Rightarrow> QuoteLine" where
  "lineValues quoteId index line =
     \<lparr>l_id = 0, l_quoteId = quoteId, l_productId = productId line, l_sortOrder = index,
      l_description = description line, l_quantity = quantity line,
      l_unitPrice = unitPrice line, l_discount = orElse (discount line) 0,
      l_lineTotal = (quantity line * unitPrice line) - orElse (discount line) 0,
      l_notes = lineNotes line\<rparr>"

definition linesValues :: "nat \<Rightarrow> QuoteLineInput list \<Rightarrow> QuoteLine list" where
  "linesValues quoteId lines = map (\<lambda>(index, line). lineValues quoteId index line)
     (zip [0..<length lines] lines)"

text \<open>
  A quote as the handlers return it: the row fetched again by id, with its lines
  (\<^verbatim>\<open>with: {lines}\<close>). The joined customer, lead, products and user are left out.
\<close>

definition linesOf :: "DB \<Rightarrow> nat \<Rightarrow> QuoteLine list" where
  "linesOf db quoteId = filter (\<lambda>l. l_quoteId l = quoteId) (quoteLines db)"

definition quoteWithLines :: "DB \<Rightarrow> nat \<Rightarrow> (Quote \<times> QuoteLine list) option" where
  "quoteWithLines db id' =
     (case findFirst (\<lambda>q. q_id q = id') (quotes db) of
        None \<Rightarrow> None
      | Some q \<Rightarrow> Some (q, linesOf db id'))"

definition quoteWithSortedLines :: "DB \<Rightarrow> nat \<Rightarrow> (Quote \<times> QuoteLine list) option" where
  "quoteWithSortedLines db id' =
     (case findFirst (\<lambda>q. q_id q = id') (quotes db) of
        None \<Rightarrow> None
      | Some q \<Rightarrow> Some (q, orderByAsc l_sortOrder (linesOf db id')))"

text \<open>\<^verbatim>\<open>GET /api/quotes\<close>.\<close>

record QuoteListResponse =
  data :: "Quote list"
  page :: nat
  pageSize :: nat
  totalCount :: nat
  totalPages :: int

definition containsPattern :: "string \<Rightarrow> string" where
  "containsPattern search = ''%'' @ search @ ''%''"

definition quoteConditions :: "nat \<Rightarrow> QuoteQueryInput \<Rightarrow> Quote \<Rightarrow> bool" where
  "quoteConditions accountId query q =
     (q_accountId q = accountId
      \<and> (case qq_search query of
            None \<Rightarrow> True
          | Some search \<Rightarrow>
              search = [] \<or>
              (ilike (q_quoteNumber q) (containsPattern search)
               \<or> (case q_title q of None \<Rightarrow> False | Some t \<Rightarrow> ilike t (containsPattern search))
               \<or> (case q_notes q of None \<Rightarrow> False | Some n \<Rightarrow> ilike n (containsPattern search))))
      \<and> (case qq_status query of None \<Rightarrow> True | Some s \<Rightarrow> q_status q = s)
      \<and> (case qq_customerId query of None \<Rightarrow> True | Some c \<Rightarrow> c = 0 \<or> q_customerId q = c))"

definition quotes_list :: "DB \<Rightarrow> JwtPayload \<Rightarrow> QuoteQueryInput \<Rightarrow> QuoteListResponse" where
  "quotes_list db user query =
     (let accountId = requireAccountAccess user;
          offset = (qq_page query - 1) * qq_pageSize query;
          count = length (filter (quoteConditions accountId query) (quotes db));
          results = take (qq_pageSize query) (drop offset
                      (orderByDesc q_createdAt
                         (filter (quoteConditions accountId query) (quotes db))))
      in \<lparr>data = results, page = qq_page query, pageSize = qq_pageSize query,
           totalCount = count,
           totalPages = \<lceil>(of_nat count :: rat) / of_nat (qq_pageSize query)\<rceil>\<rparr>)"

text \<open>
  The whole list route: \<^verbatim>\<open>validateQuery(quoteQuerySchema)\<close>, which extends
  \<^verbatim>\<open>paginationSchema\<close> by the three filters, then the handler.
\<close>

definition quotes_get ::
  "DB \<Rightarrow> JwtPayload \<Rightarrow> int option \<Rightarrow> int option \<Rightarrow> string option \<Rightarrow> QuoteStatus option
     \<Rightarrow> nat option \<Rightarrow> exn + QuoteListResponse" where
  "quotes_get db user rawPage rawPageSize search status customerId =
     (case paginationSchema rawPage rawPageSize of
        Inl e \<Rightarrow> Inl e
      | Inr (page', pageSize') \<Rightarrow>
          if positiveOpt customerId
          then Inr (quotes_list db user
                 \<lparr>qq_page = page', qq_pageSize = pageSize', qq_search = search,
                  qq_status = status, qq_customerId = customerId\<rparr>)
          else Inl (App (ValidationError ''Validation failed'')))"


text \<open>
  \<^verbatim>\<open>POST /api/quotes\<close>, after \<^verbatim>\<open>validateBody(createQuoteSchema)\<close>. \<open>year\<close> and \<open>now\<close> are the
  calendar year and the time of the request; the columns \<^verbatim>\<open>status\<close>, \<^verbatim>\<open>created_at\<close> and
  \<^verbatim>\<open>updated_at\<close> take their defaults \<^verbatim>\<open>'draft'\<close> and \<^verbatim>\<open>now()\<close>.
\<close>

definition quotes_create ::
  "DB \<Rightarrow> nat \<Rightarrow> nat \<Rightarrow> JwtPayload \<Rightarrow> CreateQuoteInput
     \<Rightarrow> exn + (DB \<times> (Quote \<times> QuoteLine list) option)" where
  "quotes_create db year now user data' =
     (let accountId = requireAccountAccess user;
          userId = jwt_userId user
      in case findFirst (\<lambda>c. c_id c = cq_customerId data' \<and> c_accountId c = accountId)
                (customers db) of
           None \<Rightarrow> Inl (App (NotFoundError ''Customer not found''))
         | Some customer \<Rightarrow>
             (let totals = calculateQuoteTotals (cq_lines data') (orElse (cq_taxRate data') 20);
                  quoteNumber = generateQuoteNumber db accountId year
              in case insertQuote db
                     \<lparr>q_id = 0, q_accountId = accountId, q_customerId = cq_customerId data',
                      q_leadId = cq_leadId data', q_quoteNumber = quoteNumber,
                      q_title = cq_title data', q_status = draft,
                      q_validUntil = cq_validUntil data',
                      q_subtotal = subtotal totals,
                      q_taxRate = orElse (cq_taxRate data') 20,
                      q_taxAmount = taxAmount totals, q_total = total totals,
                      q_depositAmount = cq_depositAmount data', q_notes = cq_notes data',
                      q_termsAndConditions = cq_termsAndConditions data',
                      q_createdBy = userId, q_createdAt = now, q_updatedAt = now\<rparr> of
                   Inl e \<Rightarrow> Inl e
                 | Inr (db1, quote) \<Rightarrow>
                     (let (db2, lines) = insertQuoteLines db1
                                           (linesValues (q_id quote) (cq_lines data'))
                      in Inr (db2, quoteWithLines db2 (q_id quote)))))"


text \<open>
  Create requests handled one after the other, each with the time of its arrival, the
  caller and the validated body: the quotes that were created, in order. A request that
  fails leaves the database as it was.
\<close>

fun createQuotes ::
  "DB \<Rightarrow> nat \<Rightarrow> (nat \<times> JwtPayload \<times> CreateQuoteInput) list \<Rightarrow> DB \<times> Quote list" where
  "createQuotes db year [] = (db, [])"
| "createQuotes db year ((now, user, data') # requests) =
     (case quotes_create db year now user data' of
        Inl e \<Rightarrow> createQuotes db year requests
      | Inr (db1, res) \<Rightarrow>
          (let (db2, created) = createQuotes db1 year requests
           in (db2, (case res of None \<Rightarrow> [] | Some (q, ls) \<Rightarrow> [q]) @ created)))"

text \<open>
  The number the specification gives the \<open>n\<close>-th quote of a year:
  \<^verbatim>\<open>QUO-<year>-<n zero-padded to 3 digits>\<close>.
\<close>

definition numberedQuote :: "nat \<Rightarrow> nat \<Rightarrow> string" where
  "numberedQuote year n = ''QUO-'' @ toString year @ ''-'' @ padStart 3 (CHR ''0'') (toString n)"

text \<open>\<^verbatim>\<open>GET /api/quotes/:id\<close>; \<open>id'\<close> is the parsed path parameter.\<close>

definition quotes_getById :: "DB \<Rightarrow> JwtPayload \<Rightarrow> nat \<Rightarrow> exn + (Quote \<times> QuoteLine list)" where
  "quotes_getById db user id' =
     (let accountId = requireAccountAccess user
      in case findFirst (\<lambda>q. q_id q = id' \<and> q_accountId q = accountId) (quotes db) of
           None \<Rightarrow> Inl (App (NotFoundError ''Quote not found''))
         | Some quote \<Rightarrow> Inr (quote, orderByAsc l_sortOrder (linesOf db id')))"

text \<open>
  \<^verbatim>\<open>PUT /api/quotes/:id\<close>, after \<^verbatim>\<open>validateBody(updateQuoteSchema)\<close>. \<^verbatim>\<open>.set(updateData)\<close>
  writes the properties that are present and leaves the other columns alone.
\<close>

definition setOpt :: "'a option \<Rightarrow> 'a \<Rightarrow> 'a" where
  "setOpt new old = (case new of None \<Rightarrow> old | Some v \<Rightarrow> v)"

definition setNullable :: "'a option \<Rightarrow> 'a option \<Rightarrow> 'a option" where
  "setNullable new old = (case new of None \<Rightarrow> old | Some v \<Rightarrow> Some v)"

definition applyUpdateData ::
  "UpdateQuoteInput \<Rightarrow> QuoteTotals option \<Rightarrow> nat \<Rightarrow> Quote \<Rightarrow> Quote" where
  "applyUpdateData data' totals now q =
     (let q1 = q\<lparr>q_title := setNullable (uq_title data') (q_title q),
                 q_validUntil := setNullable (uq_validUntil data') (q_validUntil q),
                 q_taxRate := setOpt (uq_taxRate data') (q_taxRate q),
                 q_depositAmount := setNullable (uq_depositAmount data') (q_depositAmount q),
                 q_notes := setNullable (uq_notes data') (q_notes q),
                 q_termsAndConditions :=
                   setNullable (uq_termsAndConditions data') (q_termsAndConditions q),
                 q_status := setOpt (uq_status data') (q_status q),
                 q_updatedAt := now\<rparr>
      in case totals of
           None \<Rightarrow> q1
         | Some t \<Rightarrow> q1\<lparr>q_subtotal := subtotal t, q_taxAmount := taxAmount t,
                          q_total := total t\<rparr>)"

definition quotes_put ::
  "DB \<Rightarrow> nat \<Rightarrow> JwtPayload \<Rightarrow> nat \<Rightarrow> UpdateQuoteInput
     \<Rightarrow> exn + (DB \<times> (Quote \<times> QuoteLine list) option)" where
  "quotes_put db now user id' data' =
     (let accountId = requireAccountAccess user
      in case findFirst (\<lambda>q. q_id q = id' \<and> q_accountId q = accountId) (quotes db) of
           None \<Rightarrow> Inl (App (NotFoundError ''Quote not found''))
         | Some existing \<Rightarrow>
             (let (db1, totals) =
                    (case uq_lines data' of
                       None \<Rightarrow> (db, None)
                     | Some lines \<Rightarrow>
                         (let t = calculateQuoteTotals lines
                                    (orElseOpt (uq_taxRate data') (q_taxRate existing));
                              dbDel = db\<lparr>quoteLines :=
                                         filter (\<lambda>l. l_quoteId l \<noteq> id') (quoteLines db)\<rparr>;
                              (dbIns, rows) = insertQuoteLines dbDel (linesValues id' lines)
                          in (dbIns, Some t)));
                  db2 = db1\<lparr>quotes :=
                          map (\<lambda>q. if q_id q = id' then applyUpdateData data' totals now q else q)
                            (quotes db1)\<rparr>
              in Inr (db2, quoteWithSortedLines db2 id')))"

text \<open>\<^verbatim>\<open>POST /api/quotes/:id/duplicate\<close>.\<close>

definition copyTitle :: "string option \<Rightarrow> string" where
  "copyTitle t = (case t of None \<Rightarrow> ''null'' | Some s \<Rightarrow> s) @ '' (Copy)''"

definition copyLineValues :: "nat \<Rightarrow> QuoteLine \<Rightarrow> QuoteLine" where
  "copyLineValues quoteId line =
     \<lparr>l_id = 0, l_quoteId = quoteId, l_productId = l_productId line,
      l_sortOrder = l_sortOrder line, l_description = l_description line,
      l_quantity = l_quantity line, l_unitPrice = l_unitPrice line,
      l_discount = l_discount line, l_lineTotal = l_lineTotal line, l_notes = l_notes line\<rparr>"

definition quotes_duplicate ::
  "DB \<Rightarrow> nat \<Rightarrow> nat \<Rightarrow> JwtPayload \<Rightarrow> nat
     \<Rightarrow> exn + (DB \<times> (Quote \<times> QuoteLine list) option)" where
  "quotes_duplicate db year now user id' =
     (let accountId = requireAccountAccess user;
          userId = jwt_userId user
      in case findFirst (\<lambda>q. q_id q = id' \<and> q_accountId q = accountId) (quotes db) of
           None \<Rightarrow> Inl (App (NotFoundError ''Quote not found''))
         | Some original \<Rightarrow>
             (let originalLines = linesOf db id';
                  quoteNumber = generateQuoteNumber db accountId year
              in case insertQuote db
                     \<lparr>q_id = 0, q_accountId = accountId, q_customerId = q_customerId original,
                      q_leadId = q_leadId original, q_quoteNumber = quoteNumber,
                      q_title = Some (copyTitle (q_title original)), q_status = draft,
                      q_validUntil = q_validUntil original,
                      q_subtotal = q_subtotal original,
                      q_taxRate = q_taxRate original,
                      q_taxAmount = q_taxAmount original, q_total = q_total original,
                      q_depositAmount = q_depositAmount original, q_notes = q_notes original,
                      q_termsAndConditions = q_termsAndConditions original,
                      q_createdBy = userId, q_createdAt = now, q_updatedAt = now\<rparr> of
                   Inl e \<Rightarrow> Inl e
                 | Inr (db1, newQuote) \<Rightarrow>
                     (let (db2, lines) = insertQuoteLines db1
                                           (map (copyLineValues (q_id newQuote)) originalLines)
                      in Inr (db2, quoteWithLines db2 (q_id newQuote)))))"

text \<open>What a line says, apart from its id and the quote it belongs to.\<close>

definition lineContent ::
  "QuoteLine \<Rightarrow> nat option \<times> nat \<times> string \<times> rat \<times> rat \<times> rat \<times> rat \<times> string option" where
  "lineContent l = (l_productId l, l_sortOrder l, l_description l, l_quantity l,
     l_unitPrice l, l_discount l, l_lineTotal l, l_notes l)"


section \<open>routes/customers.ts and routes/products.ts\<close>

definition customers_getById :: "DB \<Rightarrow> JwtPayload \<Rightarrow> nat \<Rightarrow> exn + Customer" where
  "customers_getById db user id' =
     (let accountId = requireAccountAccess user
      in case findFirst (\<lambda>c. c_id c = id' \<and> c_accountId c = accountId) (customers db) of
           None \<Rightarrow> Inl (App (NotFoundError ''Customer not found''))
         | Some customer \<Rightarrow> Inr customer)"

definition products_getById :: "DB \<Rightarrow> JwtPayload \<Rightarrow> nat \<Rightarrow> exn + Product" where
  "products_getById db user id' =
     (let accountId = requireAccountAccess user
      in case findFirst (\<lambda>p. p_id p = id' \<and> p_accountId p = accountId) (products db) of
           None \<Rightarrow> Inl (App (NotFoundError ''Product not found''))
         | Some product \<Rightarrow> Inr product)"

record CreateProductInput =
  cp_sku :: string
  cp_name :: string
  cp_sellPrice :: rat

definition products_create ::
  "DB \<Rightarrow> JwtPayload \<Rightarrow> CreateProductInput \<Rightarrow> exn + (DB \<times> Product)" where
  "products_create db user data' =
     (let accountId = requireAccountAccess user
      in case findFirst (\<lambda>p. p_sku p = cp_sku data' \<and> p_accountId p = accountId)
                (products db) of
           Some existing \<Rightarrow> Inl (App (ConflictError ''Product with this SKU already exists''))
         | None \<Rightarrow>
             insertProduct db \<lparr>p_id = 0, p_accountId = accountId, p_sku = cp_sku data',
                                p_name = cp_name data', p_sellPrice = cp_sellPrice data'\<rparr>)"

section \<open>routes/auth.ts, routes/users.ts and routes/boilers.ts\<close>

text \<open>
  \<^verbatim>\<open>bcrypt.hash\<close> is a parameter \<open>hash\<close> of the handlers that store a password. The
  handlers of users.ts and boilers.ts throw \<^verbatim>\<open>new AppError(text, number)\<close>: the text is
  the first argument, the number the second.
\<close>

record RegisterRequest =
  rr_accountName :: string
  rr_email :: string
  rr_name :: string
  rr_password :: string

definition auth_register ::
  "(string \<Rightarrow> string) \<Rightarrow> DB \<Rightarrow> nat \<Rightarrow> RegisterRequest \<Rightarrow> exn + (DB \<times> User)" where
  "auth_register hash db now data' =
     (case findFirst (\<lambda>u. u_email u = rr_email data') (users db) of
        Some existingUser \<Rightarrow> Inl (App (ConflictError ''User with this email already exists''))
      | None \<Rightarrow>
          (let passwordHash = hash (rr_password data');
               (db1, account) = insertAccount db
                   \<lparr>a_id = 0, a_name = rr_accountName data', a_plan = ''free'', a_isActive = True\<rparr>
           in insertUser db1
                \<lparr>u_id = 0, u_accountId = a_id account, u_email = rr_email data',
                 u_name = rr_name data', u_passwordHash = passwordHash, u_role = ''admin'',
                 u_phone = None, u_isActive = True, u_updatedAt = now\<rparr>))"

record CreateUserInput =
  cu_email :: string
  cu_name :: string
  cu_password :: string
  cu_role :: string
  cu_phone :: "string option"

definition users_create ::
  "(string \<Rightarrow> string) \<Rightarrow> DB \<Rightarrow> nat \<Rightarrow> JwtPayload \<Rightarrow> CreateUserInput \<Rightarrow> exn + (DB \<times> User)" where
  "users_create hash db now user data' =
     (if jwt_role user \<noteq> ''admin''
      then Inl (App (newAppError (JStr ''Only admins can create users'') (JNum 403)))
      else case firstRow (filter (\<lambda>u. u_email u = cu_email data') (users db)) of
             Some existing \<Rightarrow> Inl (App (newAppError (JStr ''Email already in use'') (JNum 400)))
           | None \<Rightarrow>
               (let passwordHash = hash (cu_password data')
                in insertUser db
                     \<lparr>u_id = 0, u_accountId = jwt_accountId user, u_email = cu_email data',
                      u_name = cu_name data', u_passwordHash = passwordHash,
                      u_role = cu_role data', u_phone = cu_phone data', u_isActive = True,
                      u_updatedAt = now\<rparr>))"

text \<open>\<^verbatim>\<open>DELETE /api/users/:id\<close>: deactivate a team member.\<close>

definition users_deactivate :: "DB \<Rightarrow> nat \<Rightarrow> JwtPayload \<Rightarrow> nat \<Rightarrow> exn + DB" where
  "users_deactivate db now user id' =
     (if jwt_role user \<noteq> ''admin''
      then Inl (App (newAppError (JStr ''Only admins can deactivate users'') (JNum 403)))
      else if Some id' = jwt_id user
      then Inl (App (newAppError (JStr ''Cannot deactivate your own account'') (JNum 400)))
      else if \<exists>u \<in> set (users db). u_id u = id' \<and> u_accountId u = jwt_accountId user
      then Inr (db\<lparr>users :=
                   map (\<lambda>u. if u_id u = id' \<and> u_accountId u = jwt_accountId user
                             then u\<lparr>u_isActive := False, u_updatedAt := now\<rparr> else u)
                     (users db)\<rparr>)
      else Inl (App (newAppError (JStr ''User not found'') (JNum 404))))"

record CreateBoilerInput =
  cb_manufacturer :: string
  cb_model :: string

text \<open>\<^verbatim>\<open>POST /api/boilers\<close>; \<^verbatim>\<open>is_active\<close> takes its default \<^verbatim>\<open>true\<close>.\<close>

definition boilers_create ::
  "DB \<Rightarrow> JwtPayload \<Rightarrow> CreateBoilerInput \<Rightarrow> exn + (DB \<times> BoilerSpecification)" where
  "boilers_create db user data' =
     (if jwt_role user \<noteq> ''admin''
      then Inl (App (newAppError (JStr ''Unauthorized'') (JNum 403)))
      else Inr (insertBoilerSpecification db
                  \<lparr>b_id = 0, b_manufacturer = cb_manufacturer data', b_model = cb_model data',
                   b_isActive = True\<rparr>))"


section \<open>Example data\<close>

definition adminOfAccount1 :: JwtPayload where
  "adminOfAccount1 = \<lparr>jwt_userId = 1, jwt_accountId = 1, jwt_email = ''ann@one.test'',
     jwt_role = ''admin'', jwt_id = None\<rparr>"

definition surveyorOfAccount1 :: JwtPayload where
  "surveyorOfAccount1 = \<lparr>jwt_userId = 3, jwt_accountId = 1, jwt_email = ''sam@one.test'',
     jwt_role = ''surveyor'', jwt_id = None\<rparr>"

definition adminOfAccount2 :: JwtPayload where
  "adminOfAccount2 = \<lparr>jwt_userId = 2, jwt_accountId = 2, jwt_email = ''bob@two.test'',
     jwt_role = ''admin'', jwt_id = None\<rparr>"

definition boilerLine :: QuoteLine where
  "boilerLine = \<lparr>l_id = 1, l_quoteId = 1, l_productId = Some 1, l_sortOrder = 0,
     l_description = ''Boiler'', l_quantity = 1, l_unitPrice = 1200, l_discount = 0,
     l_lineTotal = 1200, l_notes = None\<rparr>"

definition quote1 :: Quote where
  "quote1 = \<lparr>q_id = 1, q_accountId = 1, q_customerId = 1, q_leadId = None,
     q_quoteNumber = ''QUO-2026-001'', q_title = Some ''Heating'', q_status = sent,
     q_validUntil = None, q_subtotal = 1200, q_taxRate = 20, q_taxAmount = 240,
     q_total = 1440, q_depositAmount = None, q_notes = None,
     q_termsAndConditions = None, q_createdBy = 1, q_createdAt = 100, q_updatedAt = 100\<rparr>"

definition demoDb :: DB where
  "demoDb = \<lparr>
     accounts = [\<lparr>a_id = 1, a_name = ''One'', a_plan = ''free'', a_isActive = True\<rparr>,
                 \<lparr>a_id = 2, a_name = ''Two'', a_plan = ''free'', a_isActive = True\<rparr>],
     users = [\<lparr>u_id = 1, u_accountId = 1, u_email = ''ann@one.test'', u_name = ''Ann'',
                u_passwordHash = ''h1'', u_role = ''admin'', u_phone = None,
                u_isActive = True, u_updatedAt = 10\<rparr>,
              \<lparr>u_id = 2, u_accountId = 2, u_email = ''bob@two.test'', u_name = ''Bob'',
                u_passwordHash = ''h2'', u_role = ''admin'', u_phone = None,
                u_isActive = True, u_updatedAt = 20\<rparr>,
              \<lparr>u_id = 3, u_accountId = 1, u_email = ''sam@one.test'', u_name = ''Sam'',
                u_passwordHash = ''h3'', u_role = ''surveyor'', u_phone = None,
                u_isActive = True, u_updatedAt = 30\<rparr>],
     customers = [\<lparr>c_id = 1, c_accountId = 1, c_firstName = ''Cy'', c_lastName = ''Lee'',
                    c_postcode = ''AB1 2CD''\<rparr>,
                  \<lparr>c_id = 2, c_accountId = 2, c_firstName = ''Di'', c_lastName = ''Moss'',
                    c_postcode = ''EF3 4GH''\<rparr>],
     products = [\<lparr>p_id = 1, p_accountId = 1, p_sku = ''X1'', p_name = ''Boiler'',
                   p_sellPrice = 1200\<rparr>],
     boilerSpecifications = [],
     quotes = [quote1],
     quoteLines = [boilerLine],
     accounts_id_seq = 3, users_id_seq = 4, products_id_seq = 2,
     boiler_specifications_id_seq = 1, quotes_id_seq = 2, quote_lines_id_seq = 2\<rparr>"

definition demoQuery :: QuoteQueryInput where
  "demoQuery = \<lparr>qq_page = 2, qq_pageSize = 20, qq_search = None, qq_status = None,
     qq_customerId = None\<rparr>"



definition demoUpdate :: UpdateQuoteInput where
  "demoUpdate = \<lparr>uq_title = None, uq_validUntil = None, uq_taxRate = Some 0,
     uq_depositAmount = None, uq_notes = None, uq_termsAndConditions = None,
     uq_status = None,
     uq_lines = Some [\<lparr>productId = None, description = ''Service'', quantity = 1,
                        unitPrice = 100, discount = 0, lineNotes = None\<rparr>]\<rparr>"


definition pumpOfAccount2 :: CreateProductInput where
  "pumpOfAccount2 = \<lparr>cp_sku = ''X1'', cp_name = ''Pump'', cp_sellPrice = 300\<rparr>"

definition newBoiler :: CreateBoilerInput where
  "newBoiler = \<lparr>cb_manufacturer = ''Acme'', cb_model = ''B24''\<rparr>"

definition bobAgain :: CreateUserInput where
  "bobAgain = \<lparr>cu_email = ''bob@two.test'', cu_name = ''Bob'', cu_password = ''Abcdefgh12345'',
     cu_role = ''surveyor'', cu_phone = None\<rparr>"

definition bobRegisters :: RegisterRequest where
  "bobRegisters = \<lparr>rr_accountName = ''Three'', rr_email = ''bob@two.test'', rr_name = ''Bob'',
     rr_password = ''Abcdefgh12345''\<rparr>"



definition freshDb :: DB where
  "freshDb = demoDb\<lparr>quotes := [], quoteLines := []\<rparr>"

definition boilerQuote :: CreateQuoteInput where
  "boilerQuote = \<lparr>cq_customerId = 1, cq_leadId = None, cq_title = None, cq_validUntil = None,
     cq_taxRate = 20, cq_depositAmount = None, cq_notes = None, cq_termsAndConditions = None,
     cq_lines = [\<lparr>productId = None, description = ''Boiler'', quantity = 1,
                   unitPrice = 1200, discount = 0, lineNotes = None\<rparr>]\<rparr>"

definition demoRequests :: "(nat \<times> JwtPayload \<times> CreateQuoteInput) list" where
  "demoRequests = [(200, adminOfAccount1, boilerQuote), (300, surveyorOfAccount1, boilerQuote)]"

section \<open>Quote totals (C1)\<close>










section \<open>Inserted rows\<close>

lemma find_append_None:
  "List.find P xs = None \<Longrightarrow> List.find P (xs @ ys) = List.find P ys"
  by (induction xs) (simp_all split: if_splits)

lemma insertQuoteLines_quotes:
  "quotes (fst (insertQuoteLines db vs)) = quotes db"
  by (induction vs arbitrary: db) (simp_all add: insertQuoteLine_def Let_def case_prod_beta)

lemma insertQuoteLines_quoteLines:
  "quoteLines (fst (insertQuoteLines db vs)) = quoteLines db @ snd (insertQuoteLines db vs)"
  by (induction vs arbitrary: db) (simp_all add: insertQuoteLine_def Let_def case_prod_beta)

lemma insertQuoteLines_rows:
  "map (\<lambda>r. r\<lparr>l_id := 0\<rparr>) (snd (insertQuoteLines db vs)) = map (\<lambda>v. v\<lparr>l_id := 0\<rparr>) vs"
  by (induction vs arbitrary: db) (simp_all add: insertQuoteLine_def Let_def case_prod_beta)

lemma insertQuoteLines_map:
  assumes "\<And>r. f (r\<lparr>l_id := 0\<rparr>) = f r"
  shows "map f (snd (insertQuoteLines db vs)) = map f vs"
proof -
  have "map f (snd (insertQuoteLines db vs)) =
      map f (map (\<lambda>r. r\<lparr>l_id := 0\<rparr>) (snd (insertQuoteLines db vs)))"
    by (simp add: assms comp_def)
  also have "\<dots> = map f (map (\<lambda>v. v\<lparr>l_id := 0\<rparr>) vs)"
    by (simp only: insertQuoteLines_rows)
  also have "\<dots> = map f vs" by (simp add: assms comp_def)
  finally show ?thesis .
qed

lemma insertQuote_Inr:
  assumes "insertQuote db v = Inr (db1, row)"
  shows "row = v\<lparr>q_id := quotes_id_seq db\<rparr>" and "quotes db1 = quotes db @ [row]"
    and "quoteLines db1 = quoteLines db"
    and "\<forall>q \<in> set (quotes db). q_quoteNumber q \<noteq> q_quoteNumber v"
  using assms by (auto simp: insertQuote_def Let_def split: if_splits)

text \<open>The quote a create or duplicate request reads back is the row it inserted, with the lines it inserted.\<close>

lemma quoteWithLines_inserted:
  assumes ahead: "sequencesAhead db"
    and ins: "insertQuote db v = Inr (db1, row)"
    and own: "\<forall>x \<in> set vs. l_quoteId x = q_id row"
  shows "quoteWithLines (fst (insertQuoteLines db1 vs)) (q_id row) =
           Some (row, snd (insertQuoteLines db1 vs))"
proof -
  let ?db2 = "fst (insertQuoteLines db1 vs)"
  note i = insertQuote_Inr [OF ins]
  have rid: "q_id row = quotes_id_seq db" by (simp add: i(1))
  have "findFirst (\<lambda>q. q_id q = q_id row) (quotes db) = None"
    using ahead by (auto simp: findFirst_def find_None_iff sequencesAhead_def rid)
  then have ff: "findFirst (\<lambda>q. q_id q = q_id row) (quotes ?db2) = Some row"
    by (simp add: insertQuoteLines_quotes i(2) findFirst_def find_append_None)
  have old: "filter (\<lambda>l. l_quoteId l = q_id row) (quoteLines db) = []"
    using ahead by (auto simp: sequencesAhead_def rid filter_empty_conv)
  have "map l_quoteId (snd (insertQuoteLines db1 vs)) = map l_quoteId vs"
    by (rule insertQuoteLines_map) simp
  then have "set (map l_quoteId (snd (insertQuoteLines db1 vs))) = set (map l_quoteId vs)"
    by simp
  with own have "\<forall>x \<in> set (snd (insertQuoteLines db1 vs)). l_quoteId x = q_id row"
    by (metis (no_types, lifting) image_iff list.set_map)
  then have new: "filter (\<lambda>l. l_quoteId l = q_id row) (snd (insertQuoteLines db1 vs))
      = snd (insertQuoteLines db1 vs)"
    by (simp add: filter_id_conv)
  have "linesOf ?db2 (q_id row) = snd (insertQuoteLines db1 vs)"
    by (simp add: linesOf_def insertQuoteLines_quoteLines i(3) old new)
  with ff show ?thesis by (simp add: quoteWithLines_def)
qed


lemma quotes_create_Inr:
  assumes ahead: "sequencesAhead db"
    and ok: "quotes_create db year now user d = Inr (db', res)"
  shows "\<exists>q ls. res = Some (q, ls) \<and> q \<in> set (quotes db') \<and> ls = linesOf db' (q_id q)
      \<and> q_status q = draft
      \<and> q_taxRate q = orElse (cq_taxRate d) 20
      \<and> q_subtotal q = subtotal (calculateQuoteTotals (cq_lines d) (orElse (cq_taxRate d) 20))
      \<and> q_taxAmount q = taxAmount (calculateQuoteTotals (cq_lines d) (orElse (cq_taxRate d) 20))
      \<and> q_total q = total (calculateQuoteTotals (cq_lines d) (orElse (cq_taxRate d) 20))
      \<and> q_quoteNumber q = generateQuoteNumber db (jwt_accountId user) year
      \<and> q_accountId q = jwt_accountId user \<and> q_createdAt q = now
      \<and> quotes db' = quotes db @ [q]
      \<and> map (\<lambda>l. l\<lparr>l_id := 0\<rparr>) ls = linesValues (q_id q) (cq_lines d)"
proof -
  let ?v = "\<lparr>q_id = 0, q_accountId = jwt_accountId user, q_customerId = cq_customerId d,
      q_leadId = cq_leadId d, q_quoteNumber = generateQuoteNumber db (jwt_accountId user) year,
      q_title = cq_title d, q_status = draft, q_validUntil = cq_validUntil d,
      q_subtotal = subtotal (calculateQuoteTotals (cq_lines d) (orElse (cq_taxRate d) 20)),
      q_taxRate = orElse (cq_taxRate d) 20,
      q_taxAmount = taxAmount (calculateQuoteTotals (cq_lines d) (orElse (cq_taxRate d) 20)),
      q_total = total (calculateQuoteTotals (cq_lines d) (orElse (cq_taxRate d) 20)),
      q_depositAmount = cq_depositAmount d, q_notes = cq_notes d,
      q_termsAndConditions = cq_termsAndConditions d,
      q_createdBy = jwt_userId user, q_createdAt = now, q_updatedAt = now\<rparr>"
  from ok obtain db1 row where ins: "insertQuote db ?v = Inr (db1, row)"
    and db': "db' = fst (insertQuoteLines db1 (linesValues (q_id row) (cq_lines d)))"
    and res: "res = quoteWithLines db' (q_id row)"
    by (auto simp: quotes_create_def Let_def requireAccountAccess_def
        split: option.splits sum.splits prod.splits)
  note i = insertQuote_Inr [OF ins]
  have own: "\<forall>x \<in> set (linesValues (q_id row) (cq_lines d)). l_quoteId x = q_id row"
    by (auto simp: linesValues_def lineValues_def)
  have r: "res = Some (row, snd (insertQuoteLines db1 (linesValues (q_id row) (cq_lines d))))"
    unfolding res db' by (rule quoteWithLines_inserted [OF ahead ins own])
  have q: "quotes db' = quotes db @ [row]"
    by (simp add: db' insertQuoteLines_quotes i(2))
  have l: "snd (insertQuoteLines db1 (linesValues (q_id row) (cq_lines d))) = linesOf db' (q_id row)"
    using r res by (simp add: quoteWithLines_def split: option.splits)
  have z: "map (\<lambda>l. l\<lparr>l_id := 0\<rparr>) (snd (insertQuoteLines db1 (linesValues (q_id row) (cq_lines d))))
      = linesValues (q_id row) (cq_lines d)"
    by (simp add: insertQuoteLines_rows) (simp add: linesValues_def lineValues_def case_prod_beta)
  show ?thesis
    using r q l z by (simp add: i(1))
qed


section \<open>Tenant isolation of the get-by-id routes (C4)\<close>

lemma findFirst_other_account:
  assumes "distinct (map key rows)" and "r \<in> set rows" and "acct r \<noteq> a"
  shows "findFirst (\<lambda>x. key x = key r \<and> acct x = a) rows = None"
proof -
  have "\<not> (\<exists>x \<in> set rows. key x = key r \<and> acct x = a)"
  proof
    assume "\<exists>x \<in> set rows. key x = key r \<and> acct x = a"
    then obtain x where x: "x \<in> set rows" "key x = key r" "acct x = a" by blast
    from assms(1) have "inj_on key (set rows)" by (simp add: distinct_map)
    with x(1,2) assms(2) have "x = r" by (auto dest: inj_onD)
    with x(3) assms(3) show False by simp
  qed
  then show ?thesis by (simp add: findFirst_def find_None_iff)
qed

lemma findFirst_absent:
  assumes "i \<notin> key ` set rows"
  shows "findFirst (\<lambda>x. key x = i \<and> acct x = a) rows = None"
  using assms by (auto simp: findFirst_def find_None_iff)

text \<open>
  C4. An authenticated get-by-id request for a customer, a quote or a product whose id
  exists under another account than the caller's fails with \<open>NotFoundError\<close> (HTTP 404),
  the very error the handler gives for an id that does not exist; it returns neither the
  entity nor a 403. Ids are primary keys, so no two rows of a table share one.
\<close>

theorem cross_tenant_get_not_found:
  assumes "distinct (map c_id (customers db))"
    and "distinct (map q_id (quotes db))"
    and "distinct (map p_id (products db))"
  shows "(\<forall>c \<in> set (customers db). c_accountId c \<noteq> jwt_accountId user \<longrightarrow>
            customers_getById db user (c_id c) = Inl (App (NotFoundError ''Customer not found'')))
       \<and> (\<forall>q \<in> set (quotes db). q_accountId q \<noteq> jwt_accountId user \<longrightarrow>
            quotes_getById db user (q_id q) = Inl (App (NotFoundError ''Quote not found'')))
       \<and> (\<forall>p \<in> set (products db). p_accountId p \<noteq> jwt_accountId user \<longrightarrow>
            products_getById db user (p_id p) = Inl (App (NotFoundError ''Product not found'')))
       \<and> (\<forall>i. i \<notin> c_id ` set (customers db) \<longrightarrow>
            customers_getById db user i = Inl (App (NotFoundError ''Customer not found'')))
       \<and> (\<forall>i. i \<notin> q_id ` set (quotes db) \<longrightarrow>
            quotes_getById db user i = Inl (App (NotFoundError ''Quote not found'')))
       \<and> (\<forall>i. i \<notin> p_id ` set (products db) \<longrightarrow>
            products_getById db user i = Inl (App (NotFoundError ''Product not found'')))
       \<and> (\<forall>m. name (NotFoundError m) = ''NotFoundError''
              \<and> errorHandler (App (NotFoundError m)) = JNum 404)"
proof -
  have c: "customers_getById db user (c_id c) = Inl (App (NotFoundError ''Customer not found''))"
    if "c \<in> set (customers db)" "c_accountId c \<noteq> jwt_accountId user" for c
    using findFirst_other_account [OF assms(1) that(1), of c_accountId "jwt_accountId user"] that(2)
    by (simp add: customers_getById_def requireAccountAccess_def)
  have q: "quotes_getById db user (q_id q) = Inl (App (NotFoundError ''Quote not found''))"
    if "q \<in> set (quotes db)" "q_accountId q \<noteq> jwt_accountId user" for q
    using findFirst_other_account [OF assms(2) that(1), of q_accountId "jwt_accountId user"] that(2)
    by (simp add: quotes_getById_def requireAccountAccess_def)
  have p: "products_getById db user (p_id p) = Inl (App (NotFoundError ''Product not found''))"
    if "p \<in> set (products db)" "p_accountId p \<noteq> jwt_accountId user" for p
    using findFirst_other_account [OF assms(3) that(1), of p_accountId "jwt_accountId user"] that(2)
    by (simp add: products_getById_def requireAccountAccess_def)
  have c': "customers_getById db user i = Inl (App (NotFoundError ''Customer not found''))"
    if "i \<notin> c_id ` set (customers db)" for i
    by (simp add: customers_getById_def findFirst_absent [OF that])
  have q': "quotes_getById db user i = Inl (App (NotFoundError ''Quote not found''))"
    if "i \<notin> q_id ` set (quotes db)" for i
    by (simp add: quotes_getById_def findFirst_absent [OF that])
  have p': "products_getById db user i = Inl (App (NotFoundError ''Product not found''))"
    if "i \<notin> p_id ` set (products db)" for i
    by (simp add: products_getById_def findFirst_absent [OF that])
  have e: "name (NotFoundError m) = ''NotFoundError''
      \<and> errorHandler (App (NotFoundError m)) = JNum 404" for m
    by (simp add: NotFoundError_def newAppError_def)
  from c q p c' q' p' e show ?thesis by blast
qed

lemma demoDb_keys:
  "distinct (map c_id (customers demoDb))" "distinct (map q_id (quotes demoDb))"
  "distinct (map p_id (products demoDb))"
  by (simp_all add: demoDb_def quote1_def)

theorem cross_tenant_get_not_found_witness:
  "customers_getById demoDb adminOfAccount2 1 = Inl (App (NotFoundError ''Customer not found''))
   \<and> quotes_getById demoDb adminOfAccount2 1 = Inl (App (NotFoundError ''Quote not found''))
   \<and> products_getById demoDb adminOfAccount2 1 = Inl (App (NotFoundError ''Product not found''))
   \<and> customers_getById demoDb adminOfAccount2 7 = Inl (App (NotFoundError ''Customer not found''))
   \<and> (\<exists>c. customers_getById demoDb adminOfAccount1 1 = Inr c)
   \<and> errorHandler (App (NotFoundError ''Customer not found'')) = JNum 404"
  using cross_tenant_get_not_found [OF demoDb_keys, of adminOfAccount2]
  by (simp add: demoDb_def quote1_def adminOfAccount2_def adminOfAccount1_def
      customers_getById_def findFirst_def requireAccountAccess_def)


section \<open>Pagination of the quote list (C9)\<close>

lemma length_orderByDesc: "length (orderByDesc col rows) = length rows"
  by (simp add: orderByDesc_def)

lemma paginationSchema_bounds:
  assumes "paginationSchema rawPage rawPageSize = Inr (p, s)"
  shows "1 \<le> p \<and> 1 \<le> s \<and> s \<le> 100"
  using assms by (auto simp: paginationSchema_def Let_def split: if_splits option.splits)

lemma ceiling_pages:
  fixes n s :: nat
  assumes "1 \<le> s"
  shows "(\<lceil>(of_nat n :: rat) / of_nat s\<rceil> - 1) * int s < int n
       \<and> int n \<le> \<lceil>(of_nat n :: rat) / of_nat s\<rceil> * int s"
proof -
  let ?t = "\<lceil>(of_nat n :: rat) / of_nat s\<rceil>"
  have spos: "(0::rat) < of_nat s" using assms by simp
  have up: "(of_nat n :: rat) / of_nat s \<le> of_int ?t" by (rule le_of_int_ceiling)
  have lo: "of_int ?t - 1 < (of_nat n :: rat) / of_nat s" by linarith
  from up spos have "(of_nat n :: rat) \<le> of_int ?t * of_nat s"
    by (metis pos_divide_le_eq)
  then have "(of_int (int n) :: rat) \<le> of_int (?t * int s)" by simp
  then have a: "int n \<le> ?t * int s" by (simp only: of_int_le_iff)
  from lo spos have "(of_int ?t - 1) * of_nat s < (of_nat n :: rat)"
    by (metis pos_less_divide_eq)
  then have "(of_int ((?t - 1) * int s) :: rat) < of_int (int n)" by simp
  then have b: "(?t - 1) * int s < int n" by (simp only: of_int_less_iff)
  from a b show ?thesis by simp
qed

text \<open>
  C9. For every list request with \<open>page \<ge> 1\<close> and \<open>pageSize\<close> between 1 and 100 the route
  succeeds and reports \<open>totalPages = \<lceil>total / pageSize\<rceil>\<close>, where \<open>total\<close> counts the rows
  that satisfy the filters: \<open>totalPages\<close> is the one integer with
  \<open>(totalPages - 1) \<times> pageSize < total \<le> totalPages \<times> pageSize\<close>. The response holds at most
  \<open>pageSize\<close> rows, and a page beyond \<open>totalPages\<close> gets the empty list, not an error.
\<close>

theorem quotes_list_pagination:
  assumes "1 \<le> qq_page query" and "1 \<le> qq_pageSize query" and "qq_pageSize query \<le> 100"
    and "positiveOpt (qq_customerId query)"
  shows "totalCount (quotes_list db user query) =
           length (filter (quoteConditions (jwt_accountId user) query) (quotes db))
       \<and> totalPages (quotes_list db user query) =
           \<lceil>(of_nat (totalCount (quotes_list db user query)) :: rat) / of_nat (qq_pageSize query)\<rceil>
       \<and> (totalPages (quotes_list db user query) - 1) * int (qq_pageSize query)
            < int (totalCount (quotes_list db user query))
       \<and> int (totalCount (quotes_list db user query))
            \<le> totalPages (quotes_list db user query) * int (qq_pageSize query)
       \<and> length (data (quotes_list db user query)) \<le> qq_pageSize query
       \<and> (totalPages (quotes_list db user query) < int (qq_page query) \<longrightarrow>
            data (quotes_list db user query) = [])
       \<and> quotes_get db user (Some (int (qq_page query))) (Some (int (qq_pageSize query)))
            (qq_search query) (qq_status query) (qq_customerId query)
          = Inr (quotes_list db user query)"
proof -
  let ?rows = "filter (quoteConditions (jwt_accountId user) query) (quotes db)"
  let ?r = "quotes_list db user query"
  have cnt: "totalCount ?r = length ?rows"
    by (simp add: quotes_list_def Let_def requireAccountAccess_def)
  have tp: "totalPages ?r = \<lceil>(of_nat (totalCount ?r) :: rat) / of_nat (qq_pageSize query)\<rceil>"
    by (simp add: quotes_list_def Let_def)
  have dat: "data ?r = take (qq_pageSize query)
      (drop ((qq_page query - 1) * qq_pageSize query) (orderByDesc q_createdAt ?rows))"
    by (simp add: quotes_list_def Let_def requireAccountAccess_def)
  note cp = ceiling_pages [OF assms(2), of "totalCount ?r"]
  have lo: "(totalPages ?r - 1) * int (qq_pageSize query) < int (totalCount ?r)"
    using cp by (simp only: tp)
  have up: "int (totalCount ?r) \<le> totalPages ?r * int (qq_pageSize query)"
    using cp by (simp only: tp)
  have len: "length (data ?r) \<le> qq_pageSize query"
    by (simp add: dat)
  have beyond: "data ?r = []" if "totalPages ?r < int (qq_page query)"
  proof -
    from that have "totalPages ?r \<le> int (qq_page query - 1)" using assms(1) by linarith
    then have "totalPages ?r * int (qq_pageSize query)
        \<le> int (qq_page query - 1) * int (qq_pageSize query)"
      by (rule mult_right_mono) simp
    with up have "int (totalCount ?r) \<le> int ((qq_page query - 1) * qq_pageSize query)"
      by simp
    then have "length ?rows \<le> (qq_page query - 1) * qq_pageSize query"
      using cnt by linarith
    then show ?thesis by (simp add: dat length_orderByDesc)
  qed
  have route: "quotes_get db user (Some (int (qq_page query))) (Some (int (qq_pageSize query)))
            (qq_search query) (qq_status query) (qq_customerId query)
          = Inr (quotes_list db user query)"
    using assms by (cases query) (simp add: quotes_get_def paginationSchema_def)
  from cnt tp lo up len beyond route show ?thesis by blast
qed

theorem quotes_list_pagination_witness:
  "totalCount (quotes_list demoDb adminOfAccount1 demoQuery) = 1
   \<and> totalPages (quotes_list demoDb adminOfAccount1 demoQuery) = 1
   \<and> data (quotes_list demoDb adminOfAccount1 demoQuery) = []
   \<and> data (quotes_list demoDb adminOfAccount1 (demoQuery\<lparr>qq_page := 1\<rparr>)) = [quote1]"
proof -
  have rows: "filter (quoteConditions (jwt_accountId adminOfAccount1) demoQuery) (quotes demoDb)
      = [quote1]"
    by (simp add: demoDb_def quoteConditions_def demoQuery_def adminOfAccount1_def quote1_def)
  have h: "1 \<le> qq_page demoQuery" "1 \<le> qq_pageSize demoQuery" "qq_pageSize demoQuery \<le> 100"
    "positiveOpt (qq_customerId demoQuery)"
    by (simp_all add: demoQuery_def positiveOpt_def)
  have cnt: "totalCount (quotes_list demoDb adminOfAccount1 demoQuery) = 1"
    by (simp add: quotes_list_def Let_def requireAccountAccess_def rows)
  have tp: "totalPages (quotes_list demoDb adminOfAccount1 demoQuery) = 1"
    using quotes_list_pagination [OF h, of demoDb adminOfAccount1]
    by (simp add: cnt) (simp add: demoQuery_def)
  have first: "data (quotes_list demoDb adminOfAccount1 (demoQuery\<lparr>qq_page := 1\<rparr>)) = [quote1]"
    by (simp add: quotes_list_def Let_def requireAccountAccess_def orderByDesc_def demoDb_def
        quoteConditions_def demoQuery_def adminOfAccount1_def quote1_def)
  from quotes_list_pagination [OF h, of demoDb adminOfAccount1] tp cnt first
  show ?thesis by (simp add: demoQuery_def)
qed


section \<open>The tax rate of a new quote (C10)\<close>


lemma demoDb_sequencesAhead: "sequencesAhead demoDb"
  by (simp add: sequencesAhead_def demoDb_def quote1_def boilerLine_def)




section \<open>Duplicating a quote (C5)\<close>

text \<open>
  C5. Duplicating a quote creates a new quote whose status is \<open>draft\<close> whatever the status
  of the source, whose subtotal, tax amount and total are the source's stored values
  (nothing is recalculated), whose number is the one \<open>generateQuoteNumber\<close> gives at that
  moment (a number no stored quote has), and whose lines repeat the source's lines in
  product, sort order, description, quantity, unit price, discount, line total and notes.
\<close>

theorem quotes_duplicate_copies:
  assumes "sequencesAhead db"
    and "findFirst (\<lambda>q. q_id q = id' \<and> q_accountId q = jwt_accountId user) (quotes db)
           = Some original"
    and "quotes_duplicate db year now user id' = Inr (db', res)"
  shows "\<exists>q ls. res = Some (q, ls) \<and> q \<in> set (quotes db') \<and> ls = linesOf db' (q_id q)
      \<and> q_id q \<noteq> q_id original
      \<and> q_status q = draft
      \<and> q_subtotal q = q_subtotal original
      \<and> q_taxAmount q = q_taxAmount original
      \<and> q_total q = q_total original
      \<and> q_quoteNumber q = generateQuoteNumber db (jwt_accountId user) year
      \<and> q_quoteNumber q \<notin> q_quoteNumber ` set (quotes db)
      \<and> map lineContent ls = map lineContent (linesOf db id')"
proof -
  let ?v = "\<lparr>q_id = 0, q_accountId = jwt_accountId user, q_customerId = q_customerId original,
      q_leadId = q_leadId original,
      q_quoteNumber = generateQuoteNumber db (jwt_accountId user) year,
      q_title = Some (copyTitle (q_title original)), q_status = draft,
      q_validUntil = q_validUntil original, q_subtotal = q_subtotal original,
      q_taxRate = q_taxRate original, q_taxAmount = q_taxAmount original,
      q_total = q_total original, q_depositAmount = q_depositAmount original,
      q_notes = q_notes original, q_termsAndConditions = q_termsAndConditions original,
      q_createdBy = jwt_userId user, q_createdAt = now, q_updatedAt = now\<rparr>"
  let ?vs = "\<lambda>row. map (copyLineValues (q_id row)) (linesOf db id')"
  from assms(2,3) obtain db1 row where ins: "insertQuote db ?v = Inr (db1, row)"
    and db': "db' = fst (insertQuoteLines db1 (?vs row))"
    and res: "res = quoteWithLines db' (q_id row)"
    by (auto simp: quotes_duplicate_def Let_def requireAccountAccess_def
        split: option.splits sum.splits prod.splits)
  note i = insertQuote_Inr [OF ins]
  have own: "\<forall>x \<in> set (?vs row). l_quoteId x = q_id row"
    by (auto simp: copyLineValues_def)
  have r: "res = Some (row, snd (insertQuoteLines db1 (?vs row)))"
    unfolding res db' by (rule quoteWithLines_inserted [OF assms(1) ins own])
  have mem: "row \<in> set (quotes db')"
    by (simp add: db' insertQuoteLines_quotes i(2))
  have l: "snd (insertQuoteLines db1 (?vs row)) = linesOf db' (q_id row)"
    using r res by (simp add: quoteWithLines_def split: option.splits)
  have "original \<in> set (quotes db)"
    using assms(2) by (auto simp: findFirst_def find_Some_iff)
  then have "q_id original < quotes_id_seq db"
    using assms(1) by (simp add: sequencesAhead_def)
  then have new: "q_id row \<noteq> q_id original" by (simp add: i(1))
  have fresh: "q_quoteNumber row \<notin> q_quoteNumber ` set (quotes db)"
    using i(4) by (auto simp: i(1))
  have "map lineContent (snd (insertQuoteLines db1 (?vs row))) = map lineContent (?vs row)"
    by (rule insertQuoteLines_map) (simp add: lineContent_def)
  also have "\<dots> = map lineContent (linesOf db id')"
    by (simp add: lineContent_def copyLineValues_def)
  finally have c: "map lineContent (snd (insertQuoteLines db1 (?vs row)))
      = map lineContent (linesOf db id')" .
  show ?thesis
    using r mem l new fresh c by (simp add: i(1))
qed

lemma demo_duplicate_ok:
  "\<exists>db' res. quotes_duplicate demoDb 2026 200 adminOfAccount1 1 = Inr (db', res)"
proof -
  have "isl (quotes_duplicate demoDb 2026 200 adminOfAccount1 1) = False"
    by code_simp
  then show ?thesis by (cases "quotes_duplicate demoDb 2026 200 adminOfAccount1 1") auto
qed

theorem quotes_duplicate_copies_witness:
  "\<exists>db' q ls. quotes_duplicate demoDb 2026 200 adminOfAccount1 1 = Inr (db', Some (q, ls))
      \<and> q_status quote1 = sent \<and> q_status q = draft
      \<and> q_subtotal q = 1200 \<and> q_taxAmount q = 240 \<and> q_total q = 1440
      \<and> q_quoteNumber q = ''QUO-2026-002''
      \<and> map lineContent ls = [lineContent boilerLine]"
proof -
  from demo_duplicate_ok obtain db' res where
    ok: "quotes_duplicate demoDb 2026 200 adminOfAccount1 1 = Inr (db', res)" by blast
  have f: "findFirst (\<lambda>q. q_id q = 1 \<and> q_accountId q = jwt_accountId adminOfAccount1)
      (quotes demoDb) = Some quote1"
    by (simp add: findFirst_def demoDb_def quote1_def adminOfAccount1_def)
  have n: "generateQuoteNumber demoDb (jwt_accountId adminOfAccount1) 2026 = ''QUO-2026-002''"
    by code_simp
  have ls: "linesOf demoDb 1 = [boilerLine]"
    by (simp add: linesOf_def demoDb_def boilerLine_def)
  from quotes_duplicate_copies [OF demoDb_sequencesAhead f ok]
  obtain q ls where "res = Some (q, ls)" "q_status q = draft" "q_subtotal q = 1200"
    "q_taxAmount q = 240" "q_total q = 1440" "q_quoteNumber q = ''QUO-2026-002''"
    "map lineContent ls = [lineContent boilerLine]"
    unfolding n ls by (auto simp: quote1_def)
  with ok show ?thesis by (auto simp: quote1_def)
qed


section \<open>Role gates and uniqueness errors (C6, C7, C8)\<close>

lemma boilers_create_not_admin:
  assumes "jwt_role user \<noteq> ''admin''"
  shows "boilers_create db user d =
    Inl (App \<lparr>name = ''AppError'', statusCode = JStr ''Unauthorized'', message = JNum 403\<rparr>)"
  using assms by (simp add: boilers_create_def newAppError_def)

lemma users_deactivate_not_admin:
  assumes "jwt_role user \<noteq> ''admin''"
  shows "users_deactivate db now user i =
    Inl (App \<lparr>name = ''AppError'', statusCode = JStr ''Only admins can deactivate users'',
              message = JNum 403\<rparr>)"
  using assms by (simp add: users_deactivate_def newAppError_def)

text \<open>
  C6. The claim: a caller with a valid session whose role is not admin who creates a boiler
  specification or deactivates a user gets a \<open>ForbiddenError\<close> with HTTP status 403, and
  nothing is written. The code writes nothing, but what it throws is a plain \<open>AppError\<close>
  built as \<^verbatim>\<open>new AppError('Unauthorized', 403)\<close>: the constructor takes the status code first,
  so the text becomes the status code and 403 the message. Evaluated for the surveyor of
  account 1:
\<close>

theorem admin_gate_throws_plain_AppError:
  "boilers_create demoDb surveyorOfAccount1 newBoiler =
     Inl (App \<lparr>name = ''AppError'', statusCode = JStr ''Unauthorized'', message = JNum 403\<rparr>)
   \<and> users_deactivate demoDb 300 surveyorOfAccount1 1 =
     Inl (App \<lparr>name = ''AppError'', statusCode = JStr ''Only admins can deactivate users'',
               message = JNum 403\<rparr>)
   \<and> errorHandler (App \<lparr>name = ''AppError'', statusCode = JStr ''Unauthorized'',
                         message = JNum 403\<rparr>) = JStr ''Unauthorized''
   \<and> ForbiddenError ''Forbidden'' =
     \<lparr>name = ''ForbiddenError'', statusCode = JNum 403, message = JStr ''Forbidden''\<rparr>"
  by (simp add: boilers_create_def users_deactivate_def surveyorOfAccount1_def
      newAppError_def ForbiddenError_def)

lemma products_create_same_account:
  assumes "p \<in> set (products db)" and "p_sku p = cp_sku d"
    and "p_accountId p = jwt_accountId user"
  shows "products_create db user d =
    Inl (App (ConflictError ''Product with this SKU already exists''))"
proof -
  have "List.find (\<lambda>p. p_sku p = cp_sku d \<and> p_accountId p = jwt_accountId user) (products db)
      \<noteq> None"
    using assms by (auto simp: find_None_iff)
  then show ?thesis
    by (auto simp: products_create_def findFirst_def requireAccountAccess_def)
qed

text \<open>
  C7. The claim: the second of two product-creation requests with the same SKU under one
  account fails with \<open>ConflictError\<close> (409) and inserts nothing, and the same SKU under
  another account is not rejected. The first half holds (\<open>products_create_same_account\<close>).
  The second does not: the handler's check passes, but the schema declares
  \<^verbatim>\<open>products.sku\<close> unique across all accounts, so the insert throws and the request ends
  as an internal error. Evaluated for SKU X1, which account 1 holds, requested by account 2:
\<close>

theorem same_sku_in_other_account_is_rejected:
  "products_create demoDb adminOfAccount2 pumpOfAccount2 =
     Inl (UniqueViolation ''products_sku_unique'')
   \<and> errorHandler (UniqueViolation ''products_sku_unique'') = JNum 500
   \<and> products_create demoDb adminOfAccount1 pumpOfAccount2 =
     Inl (App \<lparr>name = ''ConflictError'', statusCode = JNum 409,
               message = JStr ''Product with this SKU already exists''\<rparr>)"
  by (simp add: products_create_def insertProduct_def adminOfAccount2_def adminOfAccount1_def
      pumpOfAccount2_def demoDb_def findFirst_def requireAccountAccess_def ConflictError_def
      newAppError_def)

lemma auth_register_existing_email:
  assumes "u \<in> set (users db)" and "u_email u = rr_email d"
  shows "auth_register hash db now d =
    Inl (App (ConflictError ''User with this email already exists''))"
proof -
  have "List.find (\<lambda>u. u_email u = rr_email d) (users db) \<noteq> None"
    using assms by (auto simp: find_None_iff)
  then show ?thesis by (auto simp: auth_register_def findFirst_def)
qed

text \<open>
  C8. The claim: a user-creation request, by registration or by an admin, whose email
  belongs to an existing user fails with \<open>ConflictError\<close> (409) and creates no user.
  Registration does so (\<open>auth_register_existing_email\<close>). The admin route creates no user
  either, but it throws \<^verbatim>\<open>new AppError('Email already in use', 400)\<close>: a plain \<open>AppError\<close>
  whose status code is the text and whose message is 400. Evaluated for the email of an
  existing user:
\<close>

theorem duplicate_email_in_users_create_is_not_409:
  "(\<forall>hash. users_create hash demoDb 300 adminOfAccount1 bobAgain =
       Inl (App \<lparr>name = ''AppError'', statusCode = JStr ''Email already in use'',
                 message = JNum 400\<rparr>))
   \<and> (\<forall>hash. auth_register hash demoDb 300 bobRegisters =
       Inl (App \<lparr>name = ''ConflictError'', statusCode = JNum 409,
                 message = JStr ''User with this email already exists''\<rparr>))"
  by (simp add: users_create_def auth_register_def adminOfAccount1_def bobAgain_def
      bobRegisters_def demoDb_def firstRow_def findFirst_def newAppError_def ConflictError_def)


section \<open>Quote totals after create and update (C2)\<close>



lemma map_const_all:
  assumes "map f xs = map (\<lambda>_. c) ys"
  shows "\<forall>x \<in> set xs. f x = c"
proof
  fix x assume "x \<in> set xs"
  then have "f x \<in> set (map f xs)" by simp
  then have "f x \<in> set (map (\<lambda>_. c) ys)" by (simp only: assms)
  then show "f x = c" by auto
qed
















text \<open>
  With new lines and \<^verbatim>\<open>taxRate: 0\<close> the handler computes the totals at
  \<^verbatim>\<open>data.taxRate || existing.taxRate\<close>, the old rate, and stores the rate 0.
\<close>

lemma put_taxRate_zero_with_lines:
  "quotes_put demoDb 300 adminOfAccount1 1 demoUpdate =
     Inr (demoDb\<lparr>quotes := [quote1\<lparr>q_taxRate := 0, q_subtotal := 100, q_taxAmount := 20,
                                      q_total := 120, q_updatedAt := 300\<rparr>],
                 quoteLines := [\<lparr>l_id = 2, l_quoteId = 1, l_productId = None, l_sortOrder = 0,
                                 l_description = ''Service'', l_quantity = 1, l_unitPrice = 100,
                                 l_discount = 0, l_lineTotal = 100, l_notes = None\<rparr>],
                 quote_lines_id_seq := 3\<rparr>,
          Some (quote1\<lparr>q_taxRate := 0, q_subtotal := 100, q_taxAmount := 20,
                        q_total := 120, q_updatedAt := 300\<rparr>,
                [\<lparr>l_id = 2, l_quoteId = 1, l_productId = None, l_sortOrder = 0,
                  l_description = ''Service'', l_quantity = 1, l_unitPrice = 100,
                  l_discount = 0, l_lineTotal = 100, l_notes = None\<rparr>]))"
  by (simp add: quotes_put_def Let_def requireAccountAccess_def findFirst_def demoDb_def
      adminOfAccount1_def demoUpdate_def quote1_def boilerLine_def applyUpdateData_def
      setOpt_def setNullable_def quoteWithSortedLines_def linesOf_def orderByAsc_def
      insertQuoteLine_def linesValues_def lineValues_def orElse_def orElseOpt_def
      calculateQuoteTotals_def lineTotalOf_def)



section \<open>Quote numbers (C3)\<close>

lemma of_char_digitChar: "d < 10 \<Longrightarrow> (of_char (digitChar d) :: nat) = 48 + d"
  by (simp add: digitChar_def)

lemma isDigit_digitChar: "d < 10 \<Longrightarrow> isDigit (digitChar d)"
  by (simp add: isDigit_def of_char_digitChar)

lemma digitVal_digitChar: "d < 10 \<Longrightarrow> digitVal (digitChar d) = d"
  by (simp add: digitVal_def of_char_digitChar)

lemma toString_digits: "list_all isDigit (toString n)"
proof (induction n rule: toString.induct)
  case (1 n)
  show ?case
  proof (cases "n < 10")
    case True
    then show ?thesis by (simp add: toString.simps [of n] isDigit_digitChar)
  next
    case False
    with 1 show ?thesis by (simp add: toString.simps [of n] isDigit_digitChar)
  qed
qed

lemma toString_nonempty: "toString n \<noteq> []"
  by (simp add: toString.simps [of n])

lemma parseInt_snoc: "parseInt (s @ [c]) = 10 * parseInt s + digitVal c"
  by (simp add: parseInt_def)

lemma parseInt_toString: "parseInt (toString n) = n"
proof (induction n rule: toString.induct)
  case (1 n)
  show ?case
  proof (cases "n < 10")
    case True
    then show ?thesis by (simp add: toString.simps [of n] parseInt_def digitVal_digitChar)
  next
    case False
    with 1 have "parseInt (toString (n div 10)) = n div 10" by simp
    with False show ?thesis
      by (simp add: toString.simps [of n] parseInt_snoc digitVal_digitChar)
  qed
qed

lemma foldl_zeros:
  "foldl (\<lambda>acc c. 10 * acc + digitVal c) 0 (replicate k (CHR ''0'')) = 0"
  by (induction k) (simp_all add: digitVal_def)

lemma parseInt_padStart: "parseInt (padStart k (CHR ''0'') s) = parseInt s"
  by (simp add: parseInt_def padStart_def foldl_zeros)

lemma padStart_digits:
  "list_all isDigit s \<Longrightarrow> list_all isDigit (padStart k (CHR ''0'') s)"
  by (auto simp: padStart_def isDigit_def list_all_iff)

lemma padStart_nonempty: "s \<noteq> [] \<Longrightarrow> padStart k c s \<noteq> []"
  by (simp add: padStart_def)

lemma not_isDigit_dash: "\<not> isDigit (CHR ''-'')"
  by (simp add: isDigit_def)

lemma matchHere_generated:
  assumes "ds \<noteq> []" "list_all isDigit ds" "es \<noteq> []" "list_all isDigit es"
  shows "matchHere (''QUO-'' @ ds @ ''-'' @ es) = Some es"
proof -
  have tw: "takeWhile isDigit (ds @ CHR ''-'' # es) = ds"
    using assms(2) by (simp add: list_all_iff not_isDigit_dash)
  have dw: "dropWhile isDigit (ds @ CHR ''-'' # es) = CHR ''-'' # es"
    using assms(2) by (simp add: list_all_iff not_isDigit_dash)
  have te: "takeWhile isDigit es = es"
    using assms(4) by (simp add: list_all_iff)
  show ?thesis
    using assms(1,3) by (simp add: matchHere_def Let_def tw dw te)
qed

lemma matchQuoteNumber_generated:
  assumes "ds \<noteq> []" "list_all isDigit ds" "es \<noteq> []" "list_all isDigit es"
  shows "matchQuoteNumber (''QUO-'' @ ds @ ''-'' @ es) = Some es"
proof -
  have "matchQuoteNumber (CHR ''Q'' # (''UO-'' @ ds @ ''-'' @ es)) = Some es"
    using matchHere_generated [OF assms] by (simp only: matchQuoteNumber.simps) simp
  then show ?thesis by simp
qed

lemma like_percent: "like ''%'' s"
  by (induction s) simp_all

lemma like_prefix:
  assumes "list_all plainChar p"
  shows "like (p @ ''%'') (p @ r)"
  using assms
proof (induction p)
  case Nil
  show ?case using like_percent [of r] by simp
next
  case (Cons c p)
  then show ?case by (simp add: plainChar_def)
qed

lemma toLower_digit: "isDigit c \<Longrightarrow> toLower c = c"
  by (simp add: toLower_def isDigit_def)

lemma plainChar_digit: "isDigit c \<Longrightarrow> plainChar c"
  by (auto simp: plainChar_def isDigit_def)

lemma toLower_QUO: "map toLower ''QUO-'' = ''quo-''" "map toLower ''-%'' = ''-%''"
  "map toLower ''-'' = ''-''"
  by code_simp+

lemma ilike_generated:
  "ilike (''QUO-'' @ toString year @ ''-'' @ rest) (''QUO-'' @ toString year @ ''-%'')"
proof -
  let ?p = "''quo-'' @ toString year @ ''-''"
  have low: "map toLower (toString year) = toString year"
    using toString_digits [of year] by (simp add: list_all_iff toLower_digit map_idI)
  have plain: "list_all plainChar ?p"
    using toString_digits [of year]
    by (auto simp: list_all_iff plainChar_digit) (simp_all add: plainChar_def)
  have "like (?p @ ''%'') (?p @ map toLower rest)"
    by (rule like_prefix [OF plain])
  moreover have "map toLower (''QUO-'' @ toString year @ ''-%'') = ?p @ ''%''"
    by (simp only: map_append toLower_QUO low) simp
  moreover have "map toLower (''QUO-'' @ toString year @ ''-'' @ rest) = ?p @ map toLower rest"
    by (simp only: map_append toLower_QUO low) simp
  ultimately show ?thesis by (simp only: ilike_def)
qed


lemma firstRow_rev: "firstRow (rev xs) = (if xs = [] then None else Some (last xs))"
  by (cases xs rule: rev_cases) (simp_all add: firstRow_def)

lemma sorted_le_last:
  fixes xs :: "nat list"
  assumes "sorted xs" and "x \<in> set xs"
  shows "x \<le> last xs"
  using assms
proof (induction xs rule: rev_induct)
  case Nil
  then show ?case by simp
next
  case (snoc y ys)
  then show ?case by (auto simp: sorted_append)
qed

lemma sort_key_empty: "sort_key col rows = [] \<longleftrightarrow> rows = []"
  by (metis length_0_conv length_sort)

lemma firstRow_orderByDesc_None:
  "firstRow (orderByDesc col rows) = None \<longleftrightarrow> rows = []"
  by (simp add: orderByDesc_def firstRow_rev sort_key_empty)

lemma firstRow_orderByDesc_Some:
  assumes "firstRow (orderByDesc col rows) = Some r"
  shows "r \<in> set rows \<and> (\<forall>x \<in> set rows. col x \<le> col r)"
proof -
  let ?s = "sort_key col rows"
  from assms have ne: "?s \<noteq> []" and r: "r = last ?s"
    by (simp_all add: orderByDesc_def firstRow_rev split: if_splits)
  have mem: "r \<in> set rows" using ne r by (metis last_in_set set_sort)
  have sorted: "sorted (map col ?s)" by (rule sorted_sort_key)
  have "col x \<le> col r" if "x \<in> set rows" for x
  proof -
    from that have "col x \<in> set (map col ?s)" by simp
    with sorted have "col x \<le> last (map col ?s)" by (rule sorted_le_last)
    then show ?thesis using ne by (simp add: r last_map)
  qed
  with mem show ?thesis by blast
qed

lemma latest_is_newest:
  assumes "r \<in> set rows" and "\<forall>x \<in> set rows. x \<noteq> r \<longrightarrow> col x < col r"
  shows "firstRow (orderByDesc col rows) = Some r"
proof (cases "firstRow (orderByDesc col rows)")
  case None
  with assms(1) show ?thesis by (simp add: firstRow_orderByDesc_None)
next
  case (Some y)
  from firstRow_orderByDesc_Some [OF Some] have y: "y \<in> set rows" "col r \<le> col y"
    using assms(1) by auto
  have "y = r"
  proof (rule ccontr)
    assume "y \<noteq> r"
    with assms(2) y(1) have "col y < col r" by blast
    with y(2) show False by simp
  qed
  with Some show ?thesis by simp
qed


lemma one_padded: "padStart 3 (CHR ''0'') (toString (Suc 0)) = ''001''"
  by code_simp

lemma generateQuoteNumber_first:
  assumes "quotesOfYear db a y = []"
  shows "generateQuoteNumber db a y = ''QUO-'' @ toString y @ ''-001''"
  using assms
  by (simp add: generateQuoteNumber_def latestQuoteOfYear_def firstRow_orderByDesc_None
      [THEN iffD2] one_padded)

lemma generateQuoteNumber_next:
  assumes "latestQuoteOfYear db a y = Some q"
    and "q_quoteNumber q = ''QUO-'' @ ds @ ''-'' @ es"
    and "ds \<noteq> []" "list_all isDigit ds" "es \<noteq> []" "list_all isDigit es"
  shows "generateQuoteNumber db a y = numberedQuote y (parseInt es + 1)"
proof -
  have "matchQuoteNumber (q_quoteNumber q) = Some es"
    unfolding assms(2) by (rule matchQuoteNumber_generated [OF assms(3-6)])
  moreover have "q_quoteNumber q \<noteq> []" by (simp add: assms(2))
  ultimately show ?thesis
    by (simp add: generateQuoteNumber_def assms(1) numberedQuote_def)
qed

lemma insertQuoteLines_seq:
  "quotes_id_seq (fst (insertQuoteLines db vs)) = quotes_id_seq db"
  by (induction vs arbitrary: db) (simp_all add: insertQuoteLine_def Let_def case_prod_beta)

lemma quotes_create_sequencesAhead:
  assumes ahead: "sequencesAhead db"
    and ok: "quotes_create db year now user d = Inr (db', res)"
  shows "sequencesAhead db'"
proof -
  from ok obtain v db1 row where ins: "insertQuote db v = Inr (db1, row)"
    and db': "db' = fst (insertQuoteLines db1 (linesValues (q_id row) (cq_lines d)))"
    by (auto simp: quotes_create_def Let_def requireAccountAccess_def
        split: option.splits sum.splits prod.splits)
  note i = insertQuote_Inr [OF ins]
  have seq1: "quotes_id_seq db1 = Suc (quotes_id_seq db)"
    using ins by (auto simp: insertQuote_def Let_def split: if_splits)
  have rid: "q_id row = quotes_id_seq db" by (simp add: i(1))
  have seq: "quotes_id_seq db' = Suc (quotes_id_seq db)"
    by (simp add: db' insertQuoteLines_seq seq1)
  have qs: "quotes db' = quotes db @ [row]"
    by (simp add: db' insertQuoteLines_quotes i(2))
  have ls: "quoteLines db' = quoteLines db
      @ snd (insertQuoteLines db1 (linesValues (q_id row) (cq_lines d)))"
    by (simp add: db' insertQuoteLines_quoteLines i(3))
  have "map l_quoteId (snd (insertQuoteLines db1 (linesValues (q_id row) (cq_lines d))))
      = map l_quoteId (linesValues (q_id row) (cq_lines d))"
    by (rule insertQuoteLines_map) simp
  also have "\<dots> = map (\<lambda>_. q_id row) (linesValues (q_id row) (cq_lines d))"
    by (simp add: linesValues_def lineValues_def case_prod_beta)
  finally have new: "\<forall>x \<in> set (snd (insertQuoteLines db1 (linesValues (q_id row) (cq_lines d)))).
      l_quoteId x = q_id row"
    by (rule map_const_all [where f = l_quoteId])
  have a: "\<forall>q \<in> set (quotes db'). q_id q < quotes_id_seq db'"
    using ahead by (auto simp: qs seq rid sequencesAhead_def less_Suc_eq)
  have b: "\<forall>l \<in> set (quoteLines db'). l_quoteId l < quotes_id_seq db'"
  proof
    fix l assume "l \<in> set (quoteLines db')"
    then consider "l \<in> set (quoteLines db)"
      | "l \<in> set (snd (insertQuoteLines db1 (linesValues (q_id row) (cq_lines d))))"
      by (auto simp: ls)
    then show "l_quoteId l < quotes_id_seq db'"
    proof cases
      case 1
      with ahead have "l_quoteId l < quotes_id_seq db" by (simp add: sequencesAhead_def)
      then show ?thesis by (simp add: seq)
    next
      case 2
      with new have "l_quoteId l = q_id row" by blast
      then show ?thesis by (simp add: seq rid)
    qed
  qed
  from a b show ?thesis by (simp add: sequencesAhead_def)
qed

lemma quotes_create_step:
  assumes ahead: "sequencesAhead db"
    and acct: "jwt_accountId user = a"
    and gen: "generateQuoteNumber db a y = numberedQuote y (Suc n)"
    and older: "\<forall>q \<in> set (quotesOfYear db a y). q_createdAt q < now"
    and ok: "quotes_create db y now user d = Inr (db', res)"
  shows "\<exists>q ls. res = Some (q, ls) \<and> q_quoteNumber q = numberedQuote y (Suc n)
      \<and> generateQuoteNumber db' a y = numberedQuote y (Suc (Suc n))
      \<and> (\<forall>q' \<in> set (quotesOfYear db' a y). q_createdAt q' \<le> now)
      \<and> sequencesAhead db'"
proof -
  from quotes_create_Inr [OF ahead ok] obtain q ls where
    r: "res = Some (q, ls)"
    and num: "q_quoteNumber q = generateQuoteNumber db (jwt_accountId user) y"
    and qa: "q_accountId q = jwt_accountId user" and qt: "q_createdAt q = now"
    and qs: "quotes db' = quotes db @ [q]"
    by blast
  have n: "q_quoteNumber q = numberedQuote y (Suc n)" using num acct gen by simp
  have shape: "q_quoteNumber q
      = ''QUO-'' @ toString y @ ''-'' @ padStart 3 (CHR ''0'') (toString (Suc n))"
    by (simp add: n numberedQuote_def)
  have il: "ilike (q_quoteNumber q) (''QUO-'' @ toString y @ ''-%'')"
    unfolding shape by (rule ilike_generated)
  have oy: "quotesOfYear db' a y = quotesOfYear db a y @ [q]"
    using il qa acct by (simp add: quotesOfYear_def qs)
  have newest: "\<forall>x \<in> set (quotesOfYear db' a y). x \<noteq> q \<longrightarrow> q_createdAt x < q_createdAt q"
    using older by (auto simp: oy qt)
  have latest: "latestQuoteOfYear db' a y = Some q"
    unfolding latestQuoteOfYear_def
    by (rule latest_is_newest [OF _ newest]) (simp add: oy)
  have "generateQuoteNumber db' a y
      = numberedQuote y (parseInt (padStart 3 (CHR ''0'') (toString (Suc n))) + 1)"
    by (rule generateQuoteNumber_next [OF latest shape toString_nonempty toString_digits
          padStart_nonempty [OF toString_nonempty] padStart_digits [OF toString_digits]])
  then have g: "generateQuoteNumber db' a y = numberedQuote y (Suc (Suc n))"
    by (simp add: parseInt_padStart parseInt_toString)
  have le: "\<forall>q' \<in> set (quotesOfYear db' a y). q_createdAt q' \<le> now"
    using older by (auto simp: oy qt less_imp_le)
  from r n g le quotes_create_sequencesAhead [OF ahead ok] show ?thesis by blast
qed

lemma upt_from_Suc: "[Suc n..<Suc n + Suc k] = Suc n # [Suc (Suc n)..<Suc (Suc n) + k]"
  by (simp add: upt_conv_Cons)

lemma createQuotes_numbers:
  assumes "\<forall>r \<in> set rs. jwt_accountId (fst (snd r)) = a"
    and "sorted_wrt (<) (map fst rs)"
    and "sequencesAhead db"
    and "generateQuoteNumber db a y = numberedQuote y (Suc n)"
    and "\<forall>q \<in> set (quotesOfYear db a y). \<forall>r \<in> set rs. q_createdAt q < fst r"
  shows "map q_quoteNumber (snd (createQuotes db y rs))
       = map (numberedQuote y) [Suc n..<Suc n + length (snd (createQuotes db y rs))]"
  using assms
proof (induction rs arbitrary: db n)
  case Nil
  then show ?case by simp
next
  case (Cons r rs)
  obtain now user d where r: "r = (now, user, d)" by (cases r) auto
  from Cons.prems(1) have acct: "jwt_accountId user = a"
    and accts: "\<forall>r \<in> set rs. jwt_accountId (fst (snd r)) = a"
    by (simp_all add: r)
  from Cons.prems(2) have later: "\<forall>x \<in> set rs. now < fst x" and sorted: "sorted_wrt (<) (map fst rs)"
    by (auto simp: r)
  from Cons.prems(5) have older: "\<forall>q \<in> set (quotesOfYear db a y). q_createdAt q < now"
    and olders: "\<forall>q \<in> set (quotesOfYear db a y). \<forall>r \<in> set rs. q_createdAt q < fst r"
    by (simp_all add: r)
  show ?case
  proof (cases "quotes_create db y now user d")
    case (Inl e)
    then have "createQuotes db y (r # rs) = createQuotes db y rs" by (simp add: r)
    with Cons.IH [OF accts sorted Cons.prems(3,4) olders] show ?thesis by simp
  next
    case (Inr p)
    obtain db1 res where p: "p = (db1, res)" by (cases p) auto
    with Inr have ok: "quotes_create db y now user d = Inr (db1, res)" by simp
    from quotes_create_step [OF Cons.prems(3) acct Cons.prems(4) older ok]
    obtain q ls where res: "res = Some (q, ls)"
      and num: "q_quoteNumber q = numberedQuote y (Suc n)"
      and gen: "generateQuoteNumber db1 a y = numberedQuote y (Suc (Suc n))"
      and le: "\<forall>q' \<in> set (quotesOfYear db1 a y). q_createdAt q' \<le> now"
      and ahead: "sequencesAhead db1"
      by blast
    from le later have olders1: "\<forall>q \<in> set (quotesOfYear db1 a y). \<forall>r \<in> set rs. q_createdAt q < fst r"
      by (meson le_less_trans)
    have run: "snd (createQuotes db y (r # rs)) = q # snd (createQuotes db1 y rs)"
      by (simp add: r ok res case_prod_beta)
    let ?k = "length (snd (createQuotes db1 y rs))"
    from Cons.IH [OF accts sorted ahead gen olders1]
    have "map q_quoteNumber (snd (createQuotes db1 y rs))
        = map (numberedQuote y) [Suc (Suc n)..<Suc (Suc n) + ?k]" .
    moreover have "[Suc n..<Suc n + Suc ?k] = Suc n # [Suc (Suc n)..<Suc (Suc n) + ?k]"
      by (rule upt_from_Suc)
    moreover have "length (snd (createQuotes db y (r # rs))) = Suc ?k"
      by (simp only: run list.size)
    ultimately show ?thesis by (simp only: run list.map num)
  qed
qed


end
